theory Spec2Isabelle
  imports Complex_Main "HOL-Library.Sublist" "HOL-Library.AList"
begin

section \<open>The RAG query pipeline of backend/main.py\<close>

text \<open>
  A shallow embedding of the query side of \<^verbatim>\<open>backend/main.py\<close>: token counting, the
  embedding adapter, the per-document diversity cap, reranking with its degraded path, the
  token-budgeted context assembly inside \<^verbatim>\<open>generate_answer\<close>, and the \<^verbatim>\<open>/query\<close> endpoint.

  Conventions.
  \<^item> A Python \<^verbatim>\<open>str\<close> is a \<^typ>\<open>string\<close>; one \<^typ>\<open>char\<close> stands for one code point, so
    \<^verbatim>\<open>len\<close> is \<^const>\<open>length\<close> and \<^verbatim>\<open>s[:300]\<close> is \<^term>\<open>take 300 s\<close>.
  \<^item> A Python \<^verbatim>\<open>dict\<close> whose keys are strings is an association list in insertion order,
    read with \<^const>\<open>map_of\<close> and written with \<^const>\<open>AList.update\<close>. Metadata values are only
    carried through; they are modelled as strings, which is what \<^verbatim>\<open>upload_document\<close> stores
    under \<^verbatim>\<open>document_id\<close>, \<^verbatim>\<open>title\<close>, \<^verbatim>\<open>source\<close> and \<^verbatim>\<open>text\<close>.
  \<^item> Python floats (scores, clock readings, costs) are idealised as \<^typ>\<open>real\<close>; the builtin
    \<^verbatim>\<open>round\<close> is a parameter of the environment.
  \<^item> The external collaborators (tiktoken, the OpenAI client, the Pinecone index, the Cohere
    client and the clock) are the fields of a record of services. Every remote call takes the
    state of the outside world and returns the next one, so that the number and order of the
    calls a function makes is visible in the world it returns.
  \<^item> An exception is a value: a service returns \<open>Inl e\<close> when the call raises \<open>e\<close>, and a
    function of the program returns \<open>Inl (HTTPException status detail)\<close> when it raises.
    Only exceptions derived from \<^verbatim>\<open>Exception\<close> are modelled (interpreter exits and
    keyboard interrupts are not).
\<close>

subsection \<open>Exceptions\<close>

text \<open>
  The three classes the handlers of the program tell apart, each with the text \<^verbatim>\<open>str(e)\<close>
  gives: \<^verbatim>\<open>openai.RateLimitError\<close> (a subclass of \<^verbatim>\<open>openai.APIError\<close>, caught first),
  any other \<^verbatim>\<open>openai.APIError\<close>, and any other \<^verbatim>\<open>Exception\<close>.
\<close>

datatype py_exn = RateLimitError string | APIError string | OtherException string

fun str_exn :: "py_exn \<Rightarrow> string" where
  "str_exn (RateLimitError m) = m"
| "str_exn (APIError m) = m"
| "str_exn (OtherException m) = m"

datatype http_error = HTTPException nat string

subsection \<open>Data model\<close>

type_synonym metadata = "(string \<times> string) list"

text \<open>
  A candidate document as built by \<^verbatim>\<open>query_documents\<close>: the keys \<^verbatim>\<open>text\<close> and
  \<^verbatim>\<open>metadata\<close> are always there; \<^verbatim>\<open>score\<close> and \<^verbatim>\<open>rerank_score\<close> are read with
  \<^verbatim>\<open>dict.get\<close>, so their absence is \<open>None\<close>.
\<close>

record doc =
  d_text :: string
  d_metadata :: metadata
  d_score :: "real option"
  d_rerank_score :: "real option"

record source =
  s_id :: nat
  s_preview :: string
  s_metadata :: metadata
  s_score :: real

record pinecone_match =
  m_metadata :: metadata
  m_score :: real

record rerank_result =
  r_index :: int
  r_relevance_score :: real

record completion_usage =
  prompt_tokens :: int
  completion_tokens :: int
  usage_total_tokens :: int

text \<open>
  A chat completion: the message contents of \<^verbatim>\<open>response.choices\<close> and \<^verbatim>\<open>response.usage\<close>,
  which the client types as optional.
\<close>

record chat_completion =
  choices :: "string list"
  usage :: "completion_usage option"

subsection \<open>Services\<close>

text \<open>
  \<^item> \<open>get_encoding name\<close> is \<^verbatim>\<open>tiktoken.get_encoding(name)\<close>; the encoding it returns is
    its \<^verbatim>\<open>encode\<close> method. Either step may raise. The tokenizer is local and taken to
    answer the same way each time it is asked about the same text.
  \<^item> \<open>embeddings_create model input\<close> returns the embeddings of \<^verbatim>\<open>response.data\<close>.
  \<^item> \<open>index_query vector top_k\<close> returns \<^verbatim>\<open>results.matches\<close> (\<^verbatim>\<open>include_metadata=True\<close>).
  \<^item> \<open>cohere_rerank model query documents top_n\<close> returns \<^verbatim>\<open>rerank.results\<close>.
  \<^item> \<open>chat_create model messages temperature max_tokens\<close> returns the completion.
  \<^item> \<open>time_time\<close> reads the clock; \<open>py_round x n\<close> is \<^verbatim>\<open>round(x, n)\<close>.

  A call is one call of the client method the program invokes; what a client library does
  inside that call is outside the model.
\<close>

record 'w services =
  get_encoding :: "string \<Rightarrow> py_exn + (string \<Rightarrow> py_exn + nat list)"
  embeddings_create :: "string \<Rightarrow> string \<Rightarrow> 'w \<Rightarrow> (py_exn + real list list) \<times> 'w"
  index_query :: "real list \<Rightarrow> int \<Rightarrow> 'w \<Rightarrow> (py_exn + pinecone_match list) \<times> 'w"
  cohere_rerank :: "string \<Rightarrow> string \<Rightarrow> string list \<Rightarrow> int \<Rightarrow> 'w
                     \<Rightarrow> (py_exn + rerank_result list) \<times> 'w"
  chat_create :: "string \<Rightarrow> (string \<times> string) list \<Rightarrow> real \<Rightarrow> nat \<Rightarrow> 'w
                     \<Rightarrow> (py_exn + chat_completion) \<times> 'w"
  time_time :: "'w \<Rightarrow> real \<times> 'w"
  py_round :: "real \<Rightarrow> nat \<Rightarrow> real"

subsection \<open>Configuration\<close>

definition MAX_CONTEXT_TOKENS :: nat where
  "MAX_CONTEXT_TOKENS = 6000"

definition PRICING_embedding :: real where
  "PRICING_embedding = 2 / 100000"

definition PRICING_gpt4_input :: real where
  "PRICING_gpt4_input = 1 / 100"

definition PRICING_gpt4_output :: real where
  "PRICING_gpt4_output = 3 / 100"

definition PRICING_rerank_per_search :: real where
  "PRICING_rerank_per_search = 2 / 1000"

subsection \<open>Python string and list helpers\<close>

text \<open>\<^verbatim>\<open>str(i)\<close> for a non-negative integer: its decimal digits.\<close>

fun str_nat :: "nat \<Rightarrow> string" where
  "str_nat n =
     (if n < 10 then [char_of (48 + n)]
      else str_nat (n div 10) @ [char_of (48 + n mod 10)])"

declare str_nat.simps [simp del]

text \<open>
  \<^verbatim>\<open>str.isspace\<close> on the code points below 256: tab to carriage return, the four
  separators \<^verbatim>\<open>0x1c\<close> to \<^verbatim>\<open>0x1f\<close>, space, \<^verbatim>\<open>0x85\<close> and \<^verbatim>\<open>0xa0\<close>.
\<close>

definition py_isspace :: "char \<Rightarrow> bool" where
  "py_isspace c =
     (let n = (of_char c :: nat)
      in (9 \<le> n \<and> n \<le> 13) \<or> (28 \<le> n \<and> n \<le> 32) \<or> n = 133 \<or> n = 160)"

definition py_strip :: "string \<Rightarrow> string" where
  "py_strip s = rev (dropWhile py_isspace (rev (dropWhile py_isspace s)))"

text \<open>\<^verbatim>\<open>sep.join(xs)\<close>.\<close>

fun py_join :: "string \<Rightarrow> string list \<Rightarrow> string" where
  "py_join sep [] = []"
| "py_join sep [x] = x"
| "py_join sep (x # y # ys) = x @ sep @ py_join sep (y # ys)"

text \<open>
  \<^verbatim>\<open>xs[:n]\<close>: a negative bound counts from the end, and a bound outside the list is clipped.
\<close>

definition py_slice_to :: "'a list \<Rightarrow> int \<Rightarrow> 'a list" where
  "py_slice_to xs n =
     (if 0 \<le> n then take (nat n) xs else take (length xs - nat (- n)) xs)"

text \<open>
  \<^verbatim>\<open>xs[i]\<close>: the position read, or \<open>None\<close> where Python raises \<^verbatim>\<open>IndexError\<close>.
\<close>

definition py_index :: "nat \<Rightarrow> int \<Rightarrow> nat option" where
  "py_index len i =
     (let j = (if i < 0 then int len + i else i)
      in if 0 \<le> j \<and> j < int len then Some (nat j) else None)"

subsection \<open>get_token_count\<close>

definition get_token_count :: "'w services \<Rightarrow> string \<Rightarrow> nat" where
  "get_token_count env text =
     (case get_encoding env ''cl100k_base'' of
        Inl e \<Rightarrow> length text div 4
      | Inr encode \<Rightarrow>
          (case encode text of
             Inl e \<Rightarrow> length text div 4
           | Inr tokens \<Rightarrow> length tokens))"

subsection \<open>generate_answer: context assembly\<close>

definition context_block :: "nat \<Rightarrow> doc \<Rightarrow> string" where
  "context_block i doc = ''['' @ str_nat i @ ''] '' @ d_text doc"

definition source_of :: "nat \<Rightarrow> doc \<Rightarrow> source" where
  "source_of i doc =
     \<lparr> s_id = i,
       s_preview = (if length (d_text doc) > 300 then take 300 (d_text doc) @ ''...''
                    else d_text doc),
       s_metadata = d_metadata doc,
       s_score = (case d_rerank_score doc of
                    Some r \<Rightarrow> r
                  | None \<Rightarrow> (case d_score doc of Some s \<Rightarrow> s | None \<Rightarrow> 0)) \<rparr>"

text \<open>
  The loop over \<^verbatim>\<open>enumerate(docs, 1)\<close>. Its state is the running total and the two lists
  built so far; \<^verbatim>\<open>break\<close> returns the state as it stands.
\<close>

fun assemble :: "'w services \<Rightarrow> nat \<Rightarrow> doc list \<Rightarrow> nat \<Rightarrow> string list \<Rightarrow> source list
                   \<Rightarrow> nat \<times> string list \<times> source list" where
  "assemble env i [] total_context_tokens context_blocks sources =
     (total_context_tokens, context_blocks, sources)"
| "assemble env i (doc # rest) total_context_tokens context_blocks sources =
     (let block = context_block i doc;
          block_tokens = get_token_count env block
      in if total_context_tokens + block_tokens > MAX_CONTEXT_TOKENS
         then (total_context_tokens, context_blocks, sources)
         else assemble env (i + 1) rest (total_context_tokens + block_tokens)
                (context_blocks @ [block]) (sources @ [source_of i doc]))"

text \<open>What \<^verbatim>\<open>generate_answer\<close> returns: the answer, the three usage counts, the sources.\<close>

record answer_result =
  ga_answer :: string
  ga_tokens_input :: int
  ga_tokens_output :: int
  ga_tokens_total :: int
  ga_sources :: "source list"

definition system_prompt :: string where
  "system_prompt =
     ''You are a retrieval-augmented assistant that provides accurate, well-cited answers.\<newline>''
     @ ''\<newline>''
     @ ''Rules:\<newline>''
     @ ''- Use ONLY the provided context to answer questions\<newline>''
     @ ''- EVERY claim must be followed by inline citations like [1], [2], or [1,2]\<newline>''
     @ ''- Multiple related claims can share citations if from the same source\<newline>''
     @ ''- Do NOT invent citation numbers that don'' @ [CHR 0x27] @ ''t exist\<newline>''
     @ ''- If the context doesn'' @ [CHR 0x27]
     @ ''t contain enough information, explicitly state what'' @ [CHR 0x27]
     @ ''s missing\<newline>''
     @ ''- Be concise but thorough\<newline>''
     @ ''- Structure your answer clearly with proper paragraphs\<newline>''"

definition user_prompt :: "string \<Rightarrow> string \<Rightarrow> string" where
  "user_prompt context query =
     ''Context:\<newline>'' @ context @ ''\<newline>\<newline>Question:\<newline>'' @ query
     @ ''\<newline>\<newline>Provide a well-structured answer with inline citations ''
     @ ''[1], [2], etc. for every claim you make.\<newline>''"

text \<open>
  The \<^verbatim>\<open>except\<close> clauses shared by \<^verbatim>\<open>get_embedding\<close> and \<^verbatim>\<open>generate_answer\<close>, in the
  order they are written; \<open>what\<close> is the prefix of the last clause's message.
\<close>

fun openai_except :: "string \<Rightarrow> py_exn \<Rightarrow> http_error" where
  "openai_except what (RateLimitError m) =
     HTTPException 429 ''OpenAI rate limit exceeded. Please try again later.''"
| "openai_except what (APIError m) = HTTPException 503 (''OpenAI API error: '' @ m)"
| "openai_except what (OtherException m) = HTTPException 500 (what @ m)"

text \<open>The \<^verbatim>\<open>messages\<close> argument of the chat call.\<close>

definition chat_messages :: "string \<Rightarrow> string \<Rightarrow> (string \<times> string) list" where
  "chat_messages context query =
     [(''system'', py_strip system_prompt),
      (''user'', py_strip (user_prompt context query))]"

text \<open>
  The text of the \<^verbatim>\<open>AttributeError\<close> that reading \<^verbatim>\<open>usage.prompt_tokens\<close> raises when
  \<^verbatim>\<open>response.usage\<close> is \<^verbatim>\<open>None\<close>.
\<close>

definition no_usage_message :: string where
  "no_usage_message =
     [CHR 0x27] @ ''NoneType'' @ [CHR 0x27] @ '' object has no attribute ''
     @ [CHR 0x27] @ ''prompt_tokens'' @ [CHR 0x27]"

text \<open>
  The body of the \<^verbatim>\<open>try\<close>: one call of the chat service, then the reads of
  \<^verbatim>\<open>response.choices[0]\<close> and of the fields of \<^verbatim>\<open>response.usage\<close>, in the order the
  dictionary literal evaluates them.
\<close>

definition chat_body :: "'w services \<Rightarrow> string \<Rightarrow> string \<Rightarrow> source list \<Rightarrow> 'w
                           \<Rightarrow> (py_exn + answer_result) \<times> 'w" where
  "chat_body env context query sources w =
     (case chat_create env ''gpt-4-turbo-preview'' (chat_messages context query) (2 / 10) 800 w of
        (Inl e, w') \<Rightarrow> (Inl e, w')
      | (Inr response, w') \<Rightarrow>
          (case choices response of
             [] \<Rightarrow> (Inl (OtherException ''list index out of range''), w')
           | content # _ \<Rightarrow>
               (case usage response of
                  None \<Rightarrow>
                    (Inl (OtherException no_usage_message), w')
                | Some u \<Rightarrow>
                    (Inr \<lparr> ga_answer = content,
                           ga_tokens_input = prompt_tokens u,
                           ga_tokens_output = completion_tokens u,
                           ga_tokens_total = usage_total_tokens u,
                           ga_sources = sources \<rparr>, w'))))"

text \<open>The context string handed to the chat call: the accepted blocks, joined.\<close>

definition context_of :: "'w services \<Rightarrow> doc list \<Rightarrow> string" where
  "context_of env docs =
     py_join ''\<newline>\<newline>'' (fst (snd (assemble env 1 docs 0 [] [])))"

definition generate_answer :: "'w services \<Rightarrow> string \<Rightarrow> doc list \<Rightarrow> 'w
                                 \<Rightarrow> (http_error + answer_result) \<times> 'w" where
  "generate_answer env query docs w =
     (case assemble env 1 docs 0 [] [] of
        (total_context_tokens, context_blocks, sources) \<Rightarrow>
          (let context = py_join ''\<newline>\<newline>'' context_blocks
           in case chat_body env context query sources w of
                (Inl e, w') \<Rightarrow> (Inl (openai_except ''Answer generation failed: '' e), w')
              | (Inr result, w') \<Rightarrow> (Inr result, w')))"

subsection \<open>get_embedding\<close>

definition get_embedding :: "'w services \<Rightarrow> string \<Rightarrow> 'w \<Rightarrow> (http_error + real list) \<times> 'w" where
  "get_embedding env text w =
     (case embeddings_create env ''text-embedding-3-small'' text w of
        (Inl e, w') \<Rightarrow> (Inl (openai_except ''Embedding generation failed: '' e), w')
      | (Inr [], w') \<Rightarrow>
          (Inl (openai_except ''Embedding generation failed: ''
                  (OtherException ''list index out of range'')), w')
      | (Inr (embedding # _), w') \<Rightarrow> (Inr embedding, w'))"

subsection \<open>mmr_diversify\<close>

text \<open>\<^verbatim>\<open>doc["metadata"].get("document_id", "unknown")\<close>.\<close>

definition document_id :: "doc \<Rightarrow> string" where
  "document_id doc =
     (case map_of (d_metadata doc) ''document_id'' of None \<Rightarrow> ''unknown'' | Some v \<Rightarrow> v)"

text \<open>
  The loop, with the dictionary \<^verbatim>\<open>seen\<close> and the list \<^verbatim>\<open>diversified\<close> as its state.
  \<^verbatim>\<open>seen.setdefault(doc_id, 0)\<close> stores 0 for a key not yet there.
\<close>

fun mmr_loop :: "doc list \<Rightarrow> int \<Rightarrow> (string \<rightharpoonup> int) \<Rightarrow> doc list \<Rightarrow> doc list" where
  "mmr_loop [] max_per_doc seen diversified = diversified"
| "mmr_loop (doc # rest) max_per_doc seen diversified =
     (let doc_id = document_id doc;
          n = (case seen doc_id of None \<Rightarrow> 0 | Some c \<Rightarrow> c);
          seen = seen(doc_id \<mapsto> n)
      in if n < max_per_doc
         then mmr_loop rest max_per_doc (seen(doc_id \<mapsto> n + 1)) (diversified @ [doc])
         else mmr_loop rest max_per_doc seen diversified)"

definition mmr_diversify :: "doc list \<Rightarrow> int \<Rightarrow> doc list" where
  "mmr_diversify docs max_per_doc = mmr_loop docs max_per_doc Map.empty []"

subsection \<open>rerank_documents\<close>

text \<open>
  The loop over \<^verbatim>\<open>rerank.results\<close>. The dictionaries of \<^verbatim>\<open>docs\<close> are shared between
  \<^verbatim>\<open>docs\<close> and \<^verbatim>\<open>results\<close> and are written in place, so the list \<open>store\<close> holds their
  current contents and \<open>results\<close> holds positions in it. An index outside the list raises
  \<^verbatim>\<open>IndexError\<close> inside the \<^verbatim>\<open>try\<close>; the writes made before it stay. The warning
  that the handler prints is left out.
\<close>

fun rerank_loop :: "doc list \<Rightarrow> rerank_result list \<Rightarrow> nat list
                      \<Rightarrow> doc list \<times> (py_exn + nat list)" where
  "rerank_loop store [] results = (store, Inr results)"
| "rerank_loop store (r # rs) results =
     (case py_index (length store) (r_index r) of
        None \<Rightarrow> (store, Inl (OtherException ''list index out of range''))
      | Some j \<Rightarrow>
          rerank_loop
            (store[j := (store ! j)\<lparr>d_rerank_score := Some (r_relevance_score r)\<rparr>])
            rs (results @ [j]))"

definition rerank_documents :: "'w services \<Rightarrow> string \<Rightarrow> doc list \<Rightarrow> int \<Rightarrow> 'w
                                  \<Rightarrow> doc list \<times> 'w" where
  "rerank_documents env query docs top_n w =
     (if docs = [] then ([], w)
      else
        (case cohere_rerank env ''rerank-english-v3.0'' query (map d_text docs)
                (min top_n (int (length docs))) w of
           (Inl e, w') \<Rightarrow> (py_slice_to docs top_n, w')
         | (Inr rerank, w') \<Rightarrow>
             (case rerank_loop docs rerank [] of
                (store, Inl e) \<Rightarrow> (py_slice_to store top_n, w')
              | (store, Inr results) \<Rightarrow> (map (\<lambda>j. store ! j) results, w'))))"

subsection \<open>The query endpoint\<close>

record query_request =
  q_query :: string
  q_top_k :: int
  q_rerank_top_n :: int

record token_estimate =
  embedding_tokens :: int
  llm_input_tokens :: int
  llm_output_tokens :: int
  total_tokens :: int
  costs :: "(string \<times> real) list"

record query_response =
  qr_answer :: string
  qr_sources :: "source list"
  qr_timing :: "(string \<times> real) list"
  qr_token_estimate :: token_estimate

text \<open>The matches that carry a \<^verbatim>\<open>text\<close> payload, as candidate documents.\<close>

fun extract_docs :: "pinecone_match list \<Rightarrow> doc list" where
  "extract_docs [] = []"
| "extract_docs (m # ms) =
     (case map_of (m_metadata m) ''text'' of
        None \<Rightarrow> extract_docs ms
      | Some t \<Rightarrow>
          \<lparr> d_text = t,
            d_metadata = filter (\<lambda>(k, v). k \<noteq> ''text'') (m_metadata m),
            d_score = Some (m_score m),
            d_rerank_score = None \<rparr> # extract_docs ms)"

definition no_match_answer :: string where
  "no_match_answer =
     ''I couldn'' @ [CHR 0x27]
     @ ''t find any relevant information in the knowledge base to answer your question. ''
     @ ''Please try rephrasing or upload relevant documents first.''"

text \<open>The response of the \<^verbatim>\<open>if not docs\<close> branch.\<close>

definition no_match_response :: "'w services \<Rightarrow> (string \<times> real) list \<Rightarrow> nat
                                   \<Rightarrow> query_response" where
  "no_match_response env timing query_tokens =
     \<lparr> qr_answer = no_match_answer,
       qr_sources = [],
       qr_timing = timing,
       qr_token_estimate =
         \<lparr> embedding_tokens = int query_tokens,
           llm_input_tokens = 0,
           llm_output_tokens = 0,
           total_tokens = int query_tokens,
           costs =
             [(''embedding_usd'',
                 py_round env ((real query_tokens / 1000) * PRICING_embedding) 6),
              (''llm_usd'', 0),
              (''rerank_usd'', 0),
              (''total_usd'',
                 py_round env ((real query_tokens / 1000) * PRICING_embedding) 6)] \<rparr> \<rparr>"

text \<open>The cost calculation and the response at the end of the endpoint.\<close>

definition answered_response :: "'w services \<Rightarrow> (string \<times> real) list \<Rightarrow> nat \<Rightarrow> answer_result
                                   \<Rightarrow> query_response" where
  "answered_response env timing query_tokens result =
     (let embedding_cost = (real query_tokens / 1000) * PRICING_embedding;
          llm_input_cost = (real_of_int (ga_tokens_input result) / 1000) * PRICING_gpt4_input;
          llm_output_cost = (real_of_int (ga_tokens_output result) / 1000) * PRICING_gpt4_output;
          rerank_cost = PRICING_rerank_per_search;
          total_cost = embedding_cost + llm_input_cost + llm_output_cost + rerank_cost
      in \<lparr> qr_answer = ga_answer result,
           qr_sources = ga_sources result,
           qr_timing = timing,
           qr_token_estimate =
             \<lparr> embedding_tokens = int query_tokens,
               llm_input_tokens = ga_tokens_input result,
               llm_output_tokens = ga_tokens_output result,
               total_tokens = int query_tokens + ga_tokens_total result,
               costs =
                 [(''embedding_usd'', py_round env embedding_cost 6),
                  (''llm_input_usd'', py_round env llm_input_cost 6),
                  (''llm_output_usd'', py_round env llm_output_cost 6),
                  (''rerank_usd'', py_round env rerank_cost 6),
                  (''total_usd'', py_round env total_cost 6)] \<rparr> \<rparr>)"

text \<open>
  Steps 3 to 5 of the endpoint, entered with the candidates of a non-empty retrieval:
  diversity cap, reranking, answer generation, then the totals.
\<close>

definition answer_stages :: "'w services \<Rightarrow> query_request \<Rightarrow> (string \<times> real) list \<Rightarrow> nat
                               \<Rightarrow> doc list \<Rightarrow> 'w \<Rightarrow> (http_error + query_response) \<times> 'w" where
  "answer_stages env req timing query_tokens docs w =
     (let docs = mmr_diversify docs 2
      in (case time_time env w of (t0, w) \<Rightarrow>
         (case rerank_documents env (q_query req) docs (q_rerank_top_n req) w of (docs, w) \<Rightarrow>
         (case time_time env w of (t1, w) \<Rightarrow>
         (let timing = AList.update ''reranking'' (py_round env (t1 - t0) 3) timing
          in (case time_time env w of (t0, w) \<Rightarrow>
             (case generate_answer env (q_query req) docs w of
                (Inl e, w) \<Rightarrow> (Inl e, w)
              | (Inr result, w) \<Rightarrow>
                  (case time_time env w of (t1, w) \<Rightarrow>
                    (let timing = AList.update ''generation''
                                    (py_round env (t1 - t0) 3) timing;
                         timing = AList.update ''total''
                                    (py_round env (sum_list (map snd timing)) 3) timing
                     in (Inr (answered_response env timing query_tokens result), w))))))))))"

text \<open>
  Steps 1 and 2 of the endpoint and the extraction of the candidates: the timing map, the
  token count of the query and the candidates that carry a text.
\<close>

definition retrieve_stage :: "'w services \<Rightarrow> query_request \<Rightarrow> 'w
     \<Rightarrow> (http_error + ((string \<times> real) list \<times> nat \<times> doc list)) \<times> 'w" where
  "retrieve_stage env req w =
     (let timing = []
      in (case time_time env w of (t0, w) \<Rightarrow>
         (case get_embedding env (q_query req) w of
            (Inl e, w) \<Rightarrow> (Inl e, w)
          | (Inr query_vec, w) \<Rightarrow>
              (let query_tokens = get_token_count env (q_query req)
               in (case time_time env w of (t1, w) \<Rightarrow>
                  (let timing = AList.update ''embedding'' (py_round env (t1 - t0) 3) timing
                   in (case time_time env w of (t0, w) \<Rightarrow>
                      (case index_query env query_vec (q_top_k req) w of
                         (Inl e, w) \<Rightarrow>
                           (Inl (HTTPException 500
                                   (''Vector search failed: '' @ str_exn e)), w)
                       | (Inr matches, w) \<Rightarrow>
                           (case time_time env w of (t1, w) \<Rightarrow>
                             (let timing = AList.update ''retrieval''
                                             (py_round env (t1 - t0) 3) timing
                              in (Inr (timing, query_tokens, extract_docs matches),
                                  w)))))))))))"

definition query_documents :: "'w services \<Rightarrow> query_request \<Rightarrow> 'w
                                 \<Rightarrow> (http_error + query_response) \<times> 'w" where
  "query_documents env req w =
     (if py_strip (q_query req) = [] then (Inl (HTTPException 400 ''Query cannot be empty''), w)
      else
        (case retrieve_stage env req w of
           (Inl e, w) \<Rightarrow> (Inl e, w)
         | (Inr (timing, query_tokens, docs), w) \<Rightarrow>
             (if docs = [] then (Inr (no_match_response env timing query_tokens), w)
              else answer_stages env req timing query_tokens docs w)))"

subsection \<open>Notions used to state the properties\<close>

text \<open>
  The token cost of the block built from a numbered candidate \<open>(i, doc)\<close>; the numbered
  candidates of a list are \<^term>\<open>List.enumerate 1 docs\<close>.
\<close>

definition block_cost :: "'w services \<Rightarrow> nat \<times> doc \<Rightarrow> nat" where
  "block_cost env p = get_token_count env (context_block (fst p) (snd p))"

text \<open>How many candidates of a list come from a given document.\<close>

definition count_id :: "string \<Rightarrow> doc list \<Rightarrow> nat" where
  "count_id i ds = length (filter (\<lambda>d. document_id d = i) ds)"

subsection \<open>Test doubles\<close>

text \<open>
  Services for running the definitions on concrete inputs. The world is the number of calls
  made so far to the outside (remote calls and clock readings), the clock shows that number
  in seconds, and the tokenizer gives one token per character. The rerank double rejects a
  negative \<open>top_n\<close> and otherwise returns at most \<open>top_n\<close> of its canned results.
  Rounding is to the nearest multiple of \<open>10\<^sup>-\<^sup>n\<close>, an exact tie going up, where
  Python's \<^verbatim>\<open>round\<close> goes to the even neighbour; no value rounded below is a tie.
\<close>

definition char_tokens :: "string \<Rightarrow> py_exn + (string \<Rightarrow> py_exn + nat list)" where
  "char_tokens name = Inr (\<lambda>text. Inr (map of_char text))"

definition stub_services :: "pinecone_match list \<Rightarrow> py_exn + rerank_result list
                               \<Rightarrow> py_exn + chat_completion \<Rightarrow> nat services" where
  "stub_services matches reranked completion =
     \<lparr> get_encoding = char_tokens,
       embeddings_create = (\<lambda>model input w. (Inr [[1, 0]], Suc w)),
       index_query = (\<lambda>vector top_k w. (Inr matches, Suc w)),
       cohere_rerank = (\<lambda>model query documents top_n w.
          (if top_n < 0 then Inl (APIError ''invalid request: top_n'')
           else (case reranked of Inl e \<Rightarrow> Inl e | Inr rs \<Rightarrow> Inr (take (nat top_n) rs)),
           Suc w)),
       chat_create = (\<lambda>model messages temperature max_tokens w. (completion, Suc w)),
       time_time = (\<lambda>w. (real w, Suc w)),
       py_round = (\<lambda>x n. real_of_int (round (x * 10 ^ n)) / 10 ^ n) \<rparr>"

definition doc_of :: "string \<Rightarrow> string \<Rightarrow> doc" where
  "doc_of document text =
     \<lparr> d_text = text, d_metadata = [(''document_id'', document)],
       d_score = Some 1, d_rerank_score = None \<rparr>"

definition match_of :: "string \<Rightarrow> string \<Rightarrow> pinecone_match" where
  "match_of document text =
     \<lparr> m_metadata = [(''document_id'', document), (''text'', text)], m_score = 1 \<rparr>"

definition completion_of :: "string \<Rightarrow> int \<Rightarrow> int \<Rightarrow> chat_completion" where
  "completion_of content n_in n_out =
     \<lparr> choices = [content],
       usage = Some \<lparr> prompt_tokens = n_in, completion_tokens = n_out,
                      usage_total_tokens = n_in + n_out \<rparr> \<rparr>"

definition long_text :: string where
  "long_text = replicate 6000 (CHR ''x'')"

definition demo_docs :: "doc list" where
  "demo_docs = [doc_of ''d1'' ''abc'', doc_of ''d1'' long_text, doc_of ''d2'' ''z'']"

definition demo_env :: "nat services" where
  "demo_env = stub_services [] (Inr []) (Inr (completion_of ''ok'' 10 5))"

definition offline_env :: "nat services" where
  "offline_env = demo_env\<lparr>get_encoding := (\<lambda>name. Inl (OtherException ''offline''))\<rparr>"

definition strict_env :: "nat services" where
  "strict_env = demo_env\<lparr>get_encoding :=
     (\<lambda>name. Inr (\<lambda>text. Inl (OtherException ''disallowed special token'')))\<rparr>"

definition same_doc_docs :: "doc list" where
  "same_doc_docs = [doc_of ''d1'' ''a'', doc_of ''d1'' ''b'', doc_of ''d1'' ''c'',
                    doc_of ''d2'' ''d'']"

definition rerank_down_env :: "nat services" where
  "rerank_down_env =
     stub_services [] (Inl (OtherException ''cohere down'')) (Inr (completion_of ''ok'' 10 5))"

definition embed_fails :: "py_exn \<Rightarrow> nat services" where
  "embed_fails e = demo_env\<lparr>embeddings_create := (\<lambda>model input w. (Inl e, Suc w))\<rparr>"

definition chat_fails :: "py_exn \<Rightarrow> nat services" where
  "chat_fails e = stub_services [] (Inr []) (Inl e)"

definition hello_req :: query_request where
  "hello_req = \<lparr> q_query = ''hello'', q_top_k = 15, q_rerank_top_n = 5 \<rparr>"

definition blank_req :: query_request where
  "blank_req = \<lparr> q_query = ''   '', q_top_k = 15, q_rerank_top_n = 5 \<rparr>"

definition solar_text :: string where
  "solar_text = ''Solar panels average 15-22% efficiency.''"

definition solar_env :: "nat services" where
  "solar_env =
     stub_services [match_of ''d1'' solar_text]
       (Inr [\<lparr> r_index = 0, r_relevance_score = 9 / 10 \<rparr>])
       (Inr (completion_of ''Solar panels average 15-22% efficiency [1].'' 120 12))"

definition solar_req :: query_request where
  "solar_req =
     \<lparr> q_query = ''What is solar panel efficiency?'', q_top_k = 15, q_rerank_top_n = 5 \<rparr>"

definition solar_ranked :: doc where
  "solar_ranked =
     \<lparr> d_text = solar_text, d_metadata = [(''document_id'', ''d1'')],
       d_score = Some 1, d_rerank_score = Some (9 / 10) \<rparr>"

definition solar_result :: answer_result where
  "solar_result =
     \<lparr> ga_answer = ''Solar panels average 15-22% efficiency [1].'',
       ga_tokens_input = 120, ga_tokens_output = 12, ga_tokens_total = 132,
       ga_sources = [source_of 1 solar_ranked] \<rparr>"

definition two_match_env :: "nat services" where
  "two_match_env =
     stub_services [match_of ''d1'' ''solar'', match_of ''d2'' ''wind'']
       (Inr [\<lparr> r_index = 0, r_relevance_score = 9 / 10 \<rparr>])
       (Inr (completion_of ''ok [1]'' 120 12))"

definition negative_req :: query_request where
  "negative_req = \<lparr> q_query = ''q?'', q_top_k = 15, q_rerank_top_n = - 1 \<rparr>"

definition chat_down_env :: "nat services" where
  "chat_down_env =
     stub_services [match_of ''d1'' solar_text]
       (Inr [\<lparr> r_index = 0, r_relevance_score = 9 / 10 \<rparr>])
       (Inl (RateLimitError ''slow down''))"

definition generous_env :: "nat services" where
  "generous_env =
     two_match_env\<lparr>cohere_rerank := (\<lambda>model query documents top_n w.
        (Inr [\<lparr> r_index = 0, r_relevance_score = 9 / 10 \<rparr>,
              \<lparr> r_index = 1, r_relevance_score = 7 / 10 \<rparr>], Suc w))\<rparr>"

definition one_req :: query_request where
  "one_req = \<lparr> q_query = ''q?'', q_top_k = 15, q_rerank_top_n = 1 \<rparr>"

definition ranked_of :: "string \<Rightarrow> string \<Rightarrow> real \<Rightarrow> doc" where
  "ranked_of document text relevance = (doc_of document text)\<lparr>d_rerank_score := Some relevance\<rparr>"

definition embed_empty_env :: "nat services" where
  "embed_empty_env = demo_env\<lparr>embeddings_create := (\<lambda>model input w. (Inr [], Suc w))\<rparr>"

definition chat_returns :: "chat_completion \<Rightarrow> nat services" where
  "chat_returns completion = stub_services [] (Inr []) (Inr completion)"

definition textless_match :: pinecone_match where
  "textless_match = \<lparr> m_metadata = [(''document_id'', ''d9'')], m_score = 1 \<rparr>"

definition textless_env :: "nat services" where
  "textless_env = stub_services [textless_match] (Inr []) (Inr (completion_of ''ok'' 10 5))"

section \<open>Auxiliary facts\<close>

subsection \<open>Evaluation of the test doubles\<close>

lemma length_long_text [simp]: "length long_text = 6000"
  by (simp add: long_text_def)

lemma str_nat_digits [simp]:
  "str_nat (Suc 0) = ''1''" "str_nat (Suc (Suc 0)) = ''2''" "str_nat 2 = ''2''"
  "str_nat (Suc (Suc (Suc 0))) = ''3''" "str_nat 3 = ''3''"
  by code_simp+

lemma block_cost_pair [simp]:
  "block_cost env (i, d) = get_token_count env (context_block i d)"
  by (simp add: block_cost_def)

subsection \<open>The context assembly loop\<close>

lemma assemble_spec:
  "assemble env i docs tot blocks sources = (tot', blocks', sources') \<Longrightarrow>
   \<exists>k\<le>length docs.
     blocks' = blocks @ map (\<lambda>p. context_block (fst p) (snd p)) (take k (List.enumerate i docs)) \<and>
     sources' = sources @ map (\<lambda>p. source_of (fst p) (snd p)) (take k (List.enumerate i docs)) \<and>
     tot' = tot + sum_list (map (block_cost env) (take k (List.enumerate i docs))) \<and>
     (tot \<le> MAX_CONTEXT_TOKENS \<longrightarrow> tot' \<le> MAX_CONTEXT_TOKENS) \<and>
     (k < length docs \<longrightarrow> MAX_CONTEXT_TOKENS < tot' + block_cost env (i + k, docs ! k))"
proof (induction docs arbitrary: i tot blocks sources)
  case Nil
  then show ?case by simp
next
  case (Cons d rest)
  let ?c = "get_token_count env (context_block i d)"
  show ?case
  proof (cases "MAX_CONTEXT_TOKENS < tot + ?c")
    case True
    with Cons.prems show ?thesis
      by (intro exI[of _ 0]) simp
  next
    case False
    with Cons.prems have
      "assemble env (i + 1) rest (tot + ?c) (blocks @ [context_block i d])
         (sources @ [source_of i d]) = (tot', blocks', sources')"
      by (simp add: Let_def)
    from Cons.IH[OF this] obtain k where k: "k \<le> length rest"
      "blocks' = (blocks @ [context_block i d]) @
         map (\<lambda>p. context_block (fst p) (snd p)) (take k (List.enumerate (i + 1) rest))"
      "sources' = (sources @ [source_of i d]) @
         map (\<lambda>p. source_of (fst p) (snd p)) (take k (List.enumerate (i + 1) rest))"
      "tot' = tot + ?c + sum_list (map (block_cost env) (take k (List.enumerate (i + 1) rest)))"
      "tot + ?c \<le> MAX_CONTEXT_TOKENS \<longrightarrow> tot' \<le> MAX_CONTEXT_TOKENS"
      "k < length rest \<longrightarrow> MAX_CONTEXT_TOKENS < tot' + block_cost env (i + 1 + k, rest ! k)"
      by blast
    from k False show ?thesis
      by (intro exI[of _ "Suc k"]) simp
  qed
qed

lemma assemble_start:
  assumes "assemble env 1 docs 0 [] [] = (tot, blocks, sources)"
  shows "length sources \<le> length docs"
    and "blocks = map (\<lambda>p. context_block (fst p) (snd p)) (take (length sources) (List.enumerate 1 docs))"
    and "sources = map (\<lambda>p. source_of (fst p) (snd p)) (take (length sources) (List.enumerate 1 docs))"
    and "tot = sum_list (map (block_cost env) (take (length sources) (List.enumerate 1 docs)))"
    and "tot \<le> MAX_CONTEXT_TOKENS"
    and "length sources < length docs \<Longrightarrow>
           MAX_CONTEXT_TOKENS < tot + block_cost env (Suc (length sources), docs ! length sources)"
proof -
  from assemble_spec[OF assms] obtain k where k: "k \<le> length docs"
    "blocks = [] @ map (\<lambda>p. context_block (fst p) (snd p)) (take k (List.enumerate 1 docs))"
    "sources = [] @ map (\<lambda>p. source_of (fst p) (snd p)) (take k (List.enumerate 1 docs))"
    "tot = 0 + sum_list (map (block_cost env) (take k (List.enumerate 1 docs)))"
    "0 \<le> MAX_CONTEXT_TOKENS \<longrightarrow> tot \<le> MAX_CONTEXT_TOKENS"
    "k < length docs \<longrightarrow> MAX_CONTEXT_TOKENS < tot + block_cost env (1 + k, docs ! k)"
    by blast
  from k(1,3) have len: "length sources = k" by simp
  show "length sources \<le> length docs" using k(1) len by simp
  show "blocks = map (\<lambda>p. context_block (fst p) (snd p)) (take (length sources) (List.enumerate 1 docs))"
    using k(2) len by simp
  show "sources = map (\<lambda>p. source_of (fst p) (snd p)) (take (length sources) (List.enumerate 1 docs))"
    using k(3) len by simp
  show "tot = sum_list (map (block_cost env) (take (length sources) (List.enumerate 1 docs)))"
    using k(4) len by simp
  show "tot \<le> MAX_CONTEXT_TOKENS" using k(5) by simp
  show "MAX_CONTEXT_TOKENS < tot + block_cost env (Suc (length sources), docs ! length sources)"
    if "length sources < length docs"
    using k(6) len that by simp
qed

lemma generate_answer_sources:
  assumes "generate_answer env query docs w = (Inr res, w')"
  shows "ga_sources res = snd (snd (assemble env 1 docs 0 [] []))"
  using assms
  by (auto simp: generate_answer_def chat_body_def Let_def
           split: prod.splits sum.splits list.splits option.splits)

lemma sum_list_take_le:
  fixes f :: "'a \<Rightarrow> nat"
  shows "sum_list (map f (take j xs)) \<le> sum_list (map f xs)"
proof -
  have "sum_list (map f xs) = sum_list (map f (take j xs)) + sum_list (map f (drop j xs))"
    by (metis append_take_drop_id map_append sum_list.append)
  then show ?thesis by simp
qed

lemma ids_of_prefix:
  assumes "k \<le> length docs"
  shows "map s_id (map (\<lambda>p. source_of (fst p) (snd p)) (take k (List.enumerate 1 docs)))
           = [1..<Suc k]"
proof -
  have "map s_id (map (\<lambda>p. source_of (fst p) (snd p)) (take k (List.enumerate 1 docs)))
          = take k (map fst (List.enumerate 1 docs))"
    by (simp add: source_of_def take_map comp_def del: map_fst_enumerate)
  also have "\<dots> = take k [1..<1 + length docs]" by (simp only: map_fst_enumerate)
  also have "\<dots> = [1..<Suc k]" using assms by (simp del: upt_Suc)
  finally show ?thesis .
qed

lemma demo_assemble:
  "assemble demo_env 1 demo_docs 0 [] []
     = (7, [''[1] abc''], [source_of 1 (doc_of ''d1'' ''abc'')])"
  by (simp add: demo_env_def demo_docs_def stub_services_def char_tokens_def
        get_token_count_def context_block_def doc_of_def MAX_CONTEXT_TOKENS_def
        Let_def)

lemma demo_cost_1: "block_cost demo_env (Suc 0, doc_of ''d1'' ''abc'') = 7"
  by (simp add: demo_env_def stub_services_def char_tokens_def get_token_count_def
        context_block_def doc_of_def)

lemma demo_generate:
  "generate_answer demo_env ''q'' demo_docs 0
     = (Inr \<lparr> ga_answer = ''ok'', ga_tokens_input = 10, ga_tokens_output = 5,
              ga_tokens_total = 15,
              ga_sources = [source_of 1 (doc_of ''d1'' ''abc'')] \<rparr>, 1)"
  unfolding generate_answer_def demo_assemble
  by (simp add: chat_body_def demo_env_def stub_services_def completion_of_def)

lemma demo_assemble_single:
  "assemble demo_env 1 [doc_of ''d1'' long_text] 0 [] [] = (0, [], [])"
  by (simp add: demo_env_def stub_services_def char_tokens_def
        get_token_count_def context_block_def doc_of_def MAX_CONTEXT_TOKENS_def Let_def)

subsection \<open>The diversity cap\<close>

lemma count_id_Nil [simp]: "count_id i [] = 0"
  by (simp add: count_id_def)

lemma count_id_append [simp]:
  "count_id i (xs @ ys) = count_id i xs + count_id i ys"
  by (simp add: count_id_def)

lemma count_id_single [simp]:
  "count_id i [d] = (if document_id d = i then 1 else 0)"
  by (simp add: count_id_def)

lemma mmr_loop_spec:
  assumes "\<forall>i. (case seen i of None \<Rightarrow> 0 | Some c \<Rightarrow> c) = int (count_id i acc)"
  shows "\<exists>kept. mmr_loop docs cap seen acc = acc @ kept \<and> subseq kept docs
           \<and> (\<forall>i. int (count_id i (acc @ kept)) \<le> max (int (count_id i acc)) cap)"
  using assms
proof (induction docs arbitrary: seen acc)
  case Nil
  then show ?case by simp
next
  case (Cons d rest)
  let ?id = "document_id d"
  let ?n = "case seen ?id of None \<Rightarrow> 0 | Some c \<Rightarrow> c"
  have n: "?n = int (count_id ?id acc)" using Cons.prems by blast
  show ?case
  proof (cases "?n < cap")
    case True
    let ?seen = "(seen(?id \<mapsto> ?n))(?id \<mapsto> ?n + 1)"
    have inv: "\<forall>i. (case ?seen i of None \<Rightarrow> 0 | Some c \<Rightarrow> c) = int (count_id i (acc @ [d]))"
      using Cons.prems n by auto
    from Cons.IH[OF inv] obtain kept where k:
      "mmr_loop rest cap ?seen (acc @ [d]) = (acc @ [d]) @ kept" "subseq kept rest"
      "\<forall>i. int (count_id i ((acc @ [d]) @ kept)) \<le> max (int (count_id i (acc @ [d]))) cap"
      by blast
    have run: "mmr_loop (d # rest) cap seen acc = acc @ (d # kept)"
      using True k(1) by (simp add: Let_def)
    have bound: "\<forall>i. int (count_id i (acc @ (d # kept))) \<le> max (int (count_id i acc)) cap"
    proof
      fix i
      from k(3) have "int (count_id i ((acc @ [d]) @ kept)) \<le> max (int (count_id i (acc @ [d]))) cap"
        by blast
      moreover have "max (int (count_id i (acc @ [d]))) cap \<le> max (int (count_id i acc)) cap"
        using True n by auto
      moreover have "count_id i (acc @ (d # kept)) = count_id i ((acc @ [d]) @ kept)"
        by (simp add: count_id_def)
      ultimately show "int (count_id i (acc @ (d # kept))) \<le> max (int (count_id i acc)) cap"
        by linarith
    qed
    from run k(2) bound show ?thesis by (intro exI[of _ "d # kept"]) simp
  next
    case False
    let ?seen = "seen(?id \<mapsto> ?n)"
    have inv: "\<forall>i. (case ?seen i of None \<Rightarrow> 0 | Some c \<Rightarrow> c) = int (count_id i acc)"
      using Cons.prems by auto
    from Cons.IH[OF inv] obtain kept where k:
      "mmr_loop rest cap ?seen acc = acc @ kept" "subseq kept rest"
      "\<forall>i. int (count_id i (acc @ kept)) \<le> max (int (count_id i acc)) cap"
      by blast
    have run: "mmr_loop (d # rest) cap seen acc = acc @ kept"
      using False k(1) by (simp add: Let_def)
    have sub: "subseq kept (d # rest)" using k(2) by (rule list_emb_Cons)
    from run sub k(3) show ?thesis by blast
  qed
qed

lemma mmr_diversify_spec:
  "subseq (mmr_diversify docs cap) docs
   \<and> (\<forall>i. int (count_id i (mmr_diversify docs cap)) \<le> max 0 cap)"
proof -
  have "\<forall>i. (case Map.empty i of None \<Rightarrow> 0 | Some c \<Rightarrow> c) = int (count_id i [])"
    by (simp add: count_id_def)
  from mmr_loop_spec[OF this, of docs cap] show ?thesis
    by (auto simp: mmr_diversify_def count_id_def)
qed

lemma count_id_member: "d \<in> set ds \<Longrightarrow> 0 < count_id (document_id d) ds"
  by (auto simp: count_id_def filter_empty_conv)

lemma demo_diversify:
  "mmr_diversify same_doc_docs 2 = [doc_of ''d1'' ''a'', doc_of ''d1'' ''b'', doc_of ''d2'' ''d'']"
  by (simp add: mmr_diversify_def same_doc_docs_def document_id_def doc_of_def Let_def)

subsection \<open>The handlers of the OpenAI calls\<close>

lemma chat_body_world:
  "chat_create env ''gpt-4-turbo-preview'' (chat_messages context query) (2 / 10) 800 w = (r, w')
   \<Longrightarrow> snd (chat_body env context query sources w) = w'"
  by (simp add: chat_body_def split: sum.splits list.splits option.splits)

lemma chat_body_raises:
  "chat_create env ''gpt-4-turbo-preview'' (chat_messages context query) (2 / 10) 800 w
     = (Inl e, w')
   \<Longrightarrow> chat_body env context query sources w = (Inl e, w')"
  by (simp add: chat_body_def)

lemma generate_answer_unfold:
  "generate_answer env query docs w =
     (case chat_body env (context_of env docs) query (snd (snd (assemble env 1 docs 0 [] []))) w of
        (Inl e, w') \<Rightarrow> (Inl (openai_except ''Answer generation failed: '' e), w')
      | (Inr result, w') \<Rightarrow> (Inr result, w'))"
  by (simp add: generate_answer_def context_of_def Let_def split: prod.splits)

lemma openai_except_cases:
  assumes "\<forall>e. r = Inl e \<longrightarrow> out = Inl (openai_except what e)"
  shows "(\<forall>m. r = Inl (RateLimitError m)
            \<longrightarrow> out = Inl (HTTPException 429
                              ''OpenAI rate limit exceeded. Please try again later.''))
       \<and> (\<forall>m. r = Inl (APIError m)
            \<longrightarrow> out = Inl (HTTPException 503 (''OpenAI API error: '' @ m)))
       \<and> (\<forall>m. r = Inl (OtherException m)
            \<longrightarrow> out = Inl (HTTPException 500 (what @ m)))"
proof (intro conjI allI impI)
  fix m assume "r = Inl (RateLimitError m)"
  with assms show "out = Inl (HTTPException 429
                              ''OpenAI rate limit exceeded. Please try again later.'')"
    by simp
next
  fix m assume "r = Inl (APIError m)"
  with assms show "out = Inl (HTTPException 503 (''OpenAI API error: '' @ m))"
    by simp
next
  fix m assume "r = Inl (OtherException m)"
  with assms show "out = Inl (HTTPException 500 (what @ m))"
    by simp
qed

lemma embed_fails_call:
  "embeddings_create (embed_fails e) model text w = (Inl e, Suc w)"
  by (simp add: embed_fails_def)

lemma chat_fails_call:
  "chat_create (chat_fails e) model msgs temperature max_tokens w = (Inl e, Suc w)"
  by (simp add: chat_fails_def stub_services_def)

subsection \<open>Runs of the endpoint\<close>

lemma retrieve_run:
  assumes "time_time env w = (t0, w1)"
    and "get_embedding env (q_query req) w1 = (Inr query_vec, w2)"
    and "time_time env w2 = (t1, w3)"
    and "time_time env w3 = (t2, w4)"
    and "index_query env query_vec (q_top_k req) w4 = (Inr matches, w5)"
    and "time_time env w5 = (t3, w6)"
  shows "retrieve_stage env req w =
           (Inr ([(''embedding'', py_round env (t1 - t0) 3),
                  (''retrieval'', py_round env (t3 - t2) 3)],
                 get_token_count env (q_query req), extract_docs matches), w6)"
  using assms by (simp add: retrieve_stage_def)

lemma no_match_run:
  assumes "py_strip (q_query req) \<noteq> []"
    and "time_time env w = (t0, w1)"
    and "get_embedding env (q_query req) w1 = (Inr query_vec, w2)"
    and "time_time env w2 = (t1, w3)"
    and "time_time env w3 = (t2, w4)"
    and "index_query env query_vec (q_top_k req) w4 = (Inr matches, w5)"
    and "time_time env w5 = (t3, w6)"
    and "extract_docs matches = []"
  shows "query_documents env req w =
           (Inr (no_match_response env
                   [(''embedding'', py_round env (t1 - t0) 3),
                    (''retrieval'', py_round env (t3 - t2) 3)]
                   (get_token_count env (q_query req))), w6)"
  using assms(1,8) retrieve_run[OF assms(2-7)] by (simp add: query_documents_def)

lemma answer_run:
  assumes "time_time env w6 = (t4, w7)"
    and "rerank_documents env (q_query req) (mmr_diversify docs 2) (q_rerank_top_n req) w7
           = (ranked, w8)"
    and "time_time env w8 = (t5, w9)"
    and "time_time env w9 = (t6, w10)"
    and "generate_answer env (q_query req) ranked w10 = (Inr result, w11)"
    and "time_time env w11 = (t7, w12)"
  shows "answer_stages env req [(''embedding'', e), (''retrieval'', r)] query_tokens docs w6 =
           (Inr (answered_response env
                   [(''embedding'', e), (''retrieval'', r),
                    (''reranking'', py_round env (t5 - t4) 3),
                    (''generation'', py_round env (t7 - t6) 3),
                    (''total'',
                       py_round env (e + r + py_round env (t5 - t4) 3
                                     + py_round env (t7 - t6) 3) 3)]
                   query_tokens result), w12)"
  using assms by (simp add: answer_stages_def add.assoc)

lemma answered_run:
  assumes "py_strip (q_query req) \<noteq> []"
    and "time_time env w = (t0, w1)"
    and "get_embedding env (q_query req) w1 = (Inr query_vec, w2)"
    and "time_time env w2 = (t1, w3)"
    and "time_time env w3 = (t2, w4)"
    and "index_query env query_vec (q_top_k req) w4 = (Inr matches, w5)"
    and "time_time env w5 = (t3, w6)"
    and "extract_docs matches \<noteq> []"
    and "time_time env w6 = (t4, w7)"
    and "rerank_documents env (q_query req) (mmr_diversify (extract_docs matches) 2)
           (q_rerank_top_n req) w7 = (ranked, w8)"
    and "time_time env w8 = (t5, w9)"
    and "time_time env w9 = (t6, w10)"
    and "generate_answer env (q_query req) ranked w10 = (Inr result, w11)"
    and "time_time env w11 = (t7, w12)"
  shows "query_documents env req w =
           (Inr (answered_response env
                   [(''embedding'', py_round env (t1 - t0) 3),
                    (''retrieval'', py_round env (t3 - t2) 3),
                    (''reranking'', py_round env (t5 - t4) 3),
                    (''generation'', py_round env (t7 - t6) 3),
                    (''total'',
                       py_round env (py_round env (t1 - t0) 3 + py_round env (t3 - t2) 3
                                     + py_round env (t5 - t4) 3
                                     + py_round env (t7 - t6) 3) 3)]
                   (get_token_count env (q_query req)) result), w12)"
  using assms(1,8) retrieve_run[OF assms(2-7)] answer_run[OF assms(9-14)]
  by (simp add: query_documents_def)

lemma services_independent:
  "time_time (env\<lparr>cohere_rerank := r, chat_create := c\<rparr>) = time_time env"
  "index_query (env\<lparr>cohere_rerank := r, chat_create := c\<rparr>) = index_query env"
  "py_round (env\<lparr>cohere_rerank := r, chat_create := c\<rparr>) = py_round env"
  "get_embedding (env\<lparr>cohere_rerank := r, chat_create := c\<rparr>) = get_embedding env"
  "get_token_count (env\<lparr>cohere_rerank := r, chat_create := c\<rparr>) = get_token_count env"
  by (simp_all add: get_embedding_def get_token_count_def fun_eq_iff)

lemma generate_answer_usage:
  assumes "generate_answer env query docs w = (Inr result, w')"
  shows "\<exists>completion u.
           chat_create env ''gpt-4-turbo-preview''
             (chat_messages (context_of env docs) query) (2 / 10) 800 w = (Inr completion, w')
         \<and> usage completion = Some u
         \<and> ga_tokens_input result = prompt_tokens u
         \<and> ga_tokens_output result = completion_tokens u
         \<and> ga_tokens_total result = usage_total_tokens u"
  using assms
  by (auto simp: generate_answer_unfold chat_body_def
           split: prod.splits sum.splits list.splits option.splits)

lemma rerank_loop_length:
  "rerank_loop store rs acc = (store', Inr results) \<Longrightarrow> length results = length acc + length rs"
  by (induction rs arbitrary: store acc) (auto split: option.splits)

lemma py_slice_to_length: "0 \<le> n \<Longrightarrow> int (length (py_slice_to xs n)) \<le> n"
  by (simp add: py_slice_to_def)

lemma rerank_documents_length:
  assumes "0 \<le> top_n"
    and "\<forall>query ds n w r w'.
           cohere_rerank env ''rerank-english-v3.0'' query ds n w = (Inr r, w')
             \<longrightarrow> int (length r) \<le> n"
  shows "int (length (fst (rerank_documents env query docs top_n w))) \<le> top_n"
proof (cases "docs = []")
  case True
  with assms(1) show ?thesis by (simp add: rerank_documents_def)
next
  case False
  obtain r w' where call:
    "cohere_rerank env ''rerank-english-v3.0'' query (map d_text docs)
       (min top_n (int (length docs))) w = (r, w')"
    by (cases "cohere_rerank env ''rerank-english-v3.0'' query (map d_text docs)
                 (min top_n (int (length docs))) w")
  show ?thesis
  proof (cases r)
    case (Inl e)
    with False call assms(1) show ?thesis
      by (simp add: rerank_documents_def py_slice_to_length)
  next
    case (Inr rerank)
    with call assms(2) have len: "int (length rerank) \<le> min top_n (int (length docs))"
      by blast
    obtain store out where loop: "rerank_loop docs rerank [] = (store, out)"
      by (cases "rerank_loop docs rerank []")
    show ?thesis
    proof (cases out)
      case (Inl e)
      with False call Inr loop assms(1) show ?thesis
        by (simp add: rerank_documents_def py_slice_to_length)
    next
      case (Inr results)
      with loop have "length results = length rerank"
        using rerank_loop_length[of docs rerank "[]" store results] by simp
      with False call \<open>r = Inr rerank\<close> loop Inr len show ?thesis
        by (simp add: rerank_documents_def)
    qed
  qed
qed

lemma generate_answer_length:
  assumes "generate_answer env query docs w = (Inr result, w')"
  shows "length (ga_sources result) \<le> length docs"
proof -
  obtain tot blocks sources where a: "assemble env 1 docs 0 [] [] = (tot, blocks, sources)"
    by (metis prod_cases3)
  from generate_answer_sources[OF assms] a have "ga_sources result = sources" by simp
  with assemble_start(1)[OF a] show ?thesis by simp
qed

lemma answer_stages_sources:
  assumes "answer_stages env req timing query_tokens docs w = (Inr resp, w')"
  shows "\<exists>w1 w2 w3 result.
           generate_answer env (q_query req)
             (fst (rerank_documents env (q_query req) (mmr_diversify docs 2)
                     (q_rerank_top_n req) w1)) w2
             = (Inr result, w3)
         \<and> qr_sources resp = ga_sources result"
proof -
  obtain t0 wa where a: "time_time env w = (t0, wa)" by (cases "time_time env w")
  obtain ranked wb where b:
    "rerank_documents env (q_query req) (mmr_diversify docs 2) (q_rerank_top_n req) wa
       = (ranked, wb)"
    by (cases "rerank_documents env (q_query req) (mmr_diversify docs 2)
                 (q_rerank_top_n req) wa")
  obtain t1 wc where c: "time_time env wb = (t1, wc)" by (cases "time_time env wb")
  obtain t2 wd where d: "time_time env wc = (t2, wd)" by (cases "time_time env wc")
  obtain g we where e: "generate_answer env (q_query req) ranked wd = (g, we)"
    by (cases "generate_answer env (q_query req) ranked wd")
  obtain t3 wf where f: "time_time env we = (t3, wf)" by (cases "time_time env we")
  show ?thesis
  proof (cases g)
    case (Inl err)
    with assms a b c d e show ?thesis by (simp add: answer_stages_def)
  next
    case (Inr result)
    with assms a b c d e f have "qr_sources resp = ga_sources result"
      by (auto simp: answer_stages_def answered_response_def Let_def)
    moreover from b e Inr have
      "generate_answer env (q_query req)
         (fst (rerank_documents env (q_query req) (mmr_diversify docs 2)
                 (q_rerank_top_n req) wa)) wd = (Inr result, we)"
      by simp
    ultimately show ?thesis by blast
  qed
qed

lemma query_documents_sources:
  assumes "query_documents env req w = (Inr resp, w')"
  shows "qr_sources resp = []
       \<or> (\<exists>docs w1 w2 w3 result.
             generate_answer env (q_query req)
               (fst (rerank_documents env (q_query req) docs (q_rerank_top_n req) w1)) w2
               = (Inr result, w3)
           \<and> qr_sources resp = ga_sources result)"
proof -
  obtain r w1 where r: "retrieve_stage env req w = (r, w1)"
    by (cases "retrieve_stage env req w")
  from assms have nb: "py_strip (q_query req) \<noteq> []"
    by (auto simp: query_documents_def split: if_splits)
  show ?thesis
  proof (cases r)
    case (Inl err)
    with assms r nb show ?thesis by (simp add: query_documents_def)
  next
    case (Inr p)
    obtain timing query_tokens docs where p: "p = (timing, query_tokens, docs)"
      by (cases p)
    show ?thesis
    proof (cases "docs = []")
      case True
      with assms r nb Inr p show ?thesis
        by (auto simp: query_documents_def no_match_response_def)
    next
      case False
      with assms r nb Inr p
      have "answer_stages env req timing query_tokens docs w1 = (Inr resp, w')"
        by (simp add: query_documents_def)
      from answer_stages_sources[OF this] show ?thesis by blast
    qed
  qed
qed

subsection \<open>Runs on the test doubles\<close>

lemma stub_time [simp]: "time_time (stub_services ms rr c) w = (real w, Suc w)"
  by (simp add: stub_services_def)

lemma stub_embed [simp]: "get_embedding (stub_services ms rr c) text w = (Inr [1, 0], Suc w)"
  by (simp add: get_embedding_def stub_services_def)

lemma stub_index [simp]: "index_query (stub_services ms rr c) v k w = (Inr ms, Suc w)"
  by (simp add: stub_services_def)

lemma stub_tokens [simp]: "get_token_count (stub_services ms rr c) text = length text"
  by (simp add: get_token_count_def stub_services_def char_tokens_def)

lemma stub_round [simp]:
  "py_round (stub_services ms rr c) x n = real_of_int (round (x * 10 ^ n)) / 10 ^ n"
  by (simp add: stub_services_def)

lemma py_strip_hello: "py_strip ''hello'' = ''hello''"
  by (simp add: py_strip_def py_isspace_def)

lemma py_strip_blank: "py_strip ''   '' = []"
  by (simp add: py_strip_def py_isspace_def)

lemma hello_run:
  "py_strip (q_query hello_req) \<noteq> []"
  "time_time demo_env 0 = (0, 1)"
  "get_embedding demo_env (q_query hello_req) 1 = (Inr [1, 0], 2)"
  "time_time demo_env 2 = (2, 3)"
  "time_time demo_env 3 = (3, 4)"
  "index_query demo_env [1, 0] (q_top_k hello_req) 4 = (Inr [], 5)"
  "time_time demo_env 5 = (5, 6)"
  "extract_docs [] = []"
  by (simp_all add: demo_env_def hello_req_def py_strip_hello)

lemma solar_extract:
  "extract_docs [match_of ''d1'' solar_text] = [doc_of ''d1'' solar_text]"
  by (simp add: match_of_def doc_of_def)

lemma solar_diversify:
  "mmr_diversify [doc_of ''d1'' solar_text] 2 = [doc_of ''d1'' solar_text]"
  by (simp add: mmr_diversify_def Let_def)

lemma solar_rerank:
  "rerank_documents solar_env query [doc_of ''d1'' solar_text] 5 w = ([solar_ranked], Suc w)"
  by (simp add: rerank_documents_def solar_env_def stub_services_def py_index_def
        doc_of_def solar_ranked_def)

lemma solar_generate:
  "generate_answer solar_env query [solar_ranked] w = (Inr solar_result, Suc w)"
  by (simp add: generate_answer_def chat_body_def solar_env_def solar_ranked_def
        solar_result_def solar_text_def context_block_def MAX_CONTEXT_TOKENS_def
        completion_of_def Let_def)
     (simp add: stub_services_def)

lemma solar_run:
  "py_strip (q_query solar_req) \<noteq> []"
  "time_time solar_env 0 = (0, 1)"
  "get_embedding solar_env (q_query solar_req) 1 = (Inr [1, 0], 2)"
  "time_time solar_env 2 = (2, 3)"
  "time_time solar_env 3 = (3, 4)"
  "index_query solar_env [1, 0] (q_top_k solar_req) 4 = (Inr [match_of ''d1'' solar_text], 5)"
  "time_time solar_env 5 = (5, 6)"
  "extract_docs [match_of ''d1'' solar_text] \<noteq> []"
  "time_time solar_env 6 = (6, 7)"
  "rerank_documents solar_env (q_query solar_req)
     (mmr_diversify (extract_docs [match_of ''d1'' solar_text]) 2)
     (q_rerank_top_n solar_req) 7 = ([solar_ranked], 8)"
  "time_time solar_env 8 = (8, 9)"
  "time_time solar_env 9 = (9, 10)"
  "generate_answer solar_env (q_query solar_req) [solar_ranked] 10 = (Inr solar_result, 11)"
  "time_time solar_env 11 = (11, 12)"
  apply (simp_all only: solar_extract solar_diversify)
  apply (simp_all add: solar_req_def solar_rerank solar_generate)
  apply (simp_all add: solar_env_def py_strip_def py_isspace_def)
  done

lemma stub_rerank_contract:
  "\<forall>query ds n w r w'.
     cohere_rerank (stub_services ms rr c) ''rerank-english-v3.0'' query ds n w = (Inr r, w')
       \<longrightarrow> int (length r) \<le> n"
  by (auto simp: stub_services_def split: if_splits sum.splits)

lemma negative_extract:
  "extract_docs [match_of ''d1'' ''solar'', match_of ''d2'' ''wind'']
     = [doc_of ''d1'' ''solar'', doc_of ''d2'' ''wind'']"
  by (simp add: match_of_def doc_of_def)

lemma negative_diversify:
  "mmr_diversify [doc_of ''d1'' ''solar'', doc_of ''d2'' ''wind''] 2
     = [doc_of ''d1'' ''solar'', doc_of ''d2'' ''wind'']"
  by (simp add: mmr_diversify_def document_id_def doc_of_def Let_def)

lemma negative_rerank:
  "rerank_documents two_match_env query [doc_of ''d1'' ''solar'', doc_of ''d2'' ''wind'']
     (- 1) w = ([doc_of ''d1'' ''solar''], Suc w)"
  by (simp add: rerank_documents_def two_match_env_def stub_services_def py_slice_to_def)

lemma negative_generate:
  "generate_answer two_match_env query [doc_of ''d1'' ''solar''] w
     = (Inr \<lparr> ga_answer = ''ok [1]'', ga_tokens_input = 120, ga_tokens_output = 12,
              ga_tokens_total = 132,
              ga_sources = [source_of 1 (doc_of ''d1'' ''solar'')] \<rparr>, Suc w)"
  by (simp add: generate_answer_def chat_body_def two_match_env_def doc_of_def
        context_block_def MAX_CONTEXT_TOKENS_def completion_of_def Let_def)
     (simp add: stub_services_def)

lemma negative_run:
  "py_strip (q_query negative_req) \<noteq> []"
  "time_time two_match_env 0 = (0, 1)"
  "get_embedding two_match_env (q_query negative_req) 1 = (Inr [1, 0], 2)"
  "time_time two_match_env 2 = (2, 3)"
  "time_time two_match_env 3 = (3, 4)"
  "index_query two_match_env [1, 0] (q_top_k negative_req) 4
     = (Inr [match_of ''d1'' ''solar'', match_of ''d2'' ''wind''], 5)"
  "time_time two_match_env 5 = (5, 6)"
  "extract_docs [match_of ''d1'' ''solar'', match_of ''d2'' ''wind''] \<noteq> []"
  "time_time two_match_env 6 = (6, 7)"
  "rerank_documents two_match_env (q_query negative_req)
     (mmr_diversify (extract_docs [match_of ''d1'' ''solar'', match_of ''d2'' ''wind'']) 2)
     (q_rerank_top_n negative_req) 7 = ([doc_of ''d1'' ''solar''], 8)"
  "time_time two_match_env 8 = (8, 9)"
  "time_time two_match_env 9 = (9, 10)"
  "generate_answer two_match_env (q_query negative_req) [doc_of ''d1'' ''solar''] 10
     = (Inr \<lparr> ga_answer = ''ok [1]'', ga_tokens_input = 120, ga_tokens_output = 12,
              ga_tokens_total = 132,
              ga_sources = [source_of 1 (doc_of ''d1'' ''solar'')] \<rparr>, 11)"
  "time_time two_match_env 11 = (11, 12)"
  apply (simp_all only: negative_extract negative_diversify)
  apply (simp_all add: negative_req_def negative_rerank negative_generate)
  apply (simp_all add: two_match_env_def py_strip_def py_isspace_def)
  done

lemma embedding_error_run:
  assumes "py_strip (q_query req) \<noteq> []"
    and "time_time env w = (t0, w1)"
    and "get_embedding env (q_query req) w1 = (Inl e, w2)"
  shows "query_documents env req w = (Inl e, w2)"
  using assms by (simp add: query_documents_def retrieve_stage_def)

lemma generation_error_run:
  assumes "py_strip (q_query req) \<noteq> []"
    and "time_time env w = (t0, w1)"
    and "get_embedding env (q_query req) w1 = (Inr query_vec, w2)"
    and "time_time env w2 = (t1, w3)"
    and "time_time env w3 = (t2, w4)"
    and "index_query env query_vec (q_top_k req) w4 = (Inr matches, w5)"
    and "time_time env w5 = (t3, w6)"
    and "extract_docs matches \<noteq> []"
    and "time_time env w6 = (t4, w7)"
    and "rerank_documents env (q_query req) (mmr_diversify (extract_docs matches) 2)
           (q_rerank_top_n req) w7 = (ranked, w8)"
    and "time_time env w8 = (t5, w9)"
    and "time_time env w9 = (t6, w10)"
    and "generate_answer env (q_query req) ranked w10 = (Inl e, w11)"
  shows "query_documents env req w = (Inl e, w11)"
  using assms(1,8) retrieve_run[OF assms(2-7)] assms(9-13)
  by (simp add: query_documents_def answer_stages_def)

lemma chat_down_rerank:
  "rerank_documents chat_down_env query [doc_of ''d1'' solar_text] 5 w
     = ([solar_ranked], Suc w)"
  by (simp add: rerank_documents_def chat_down_env_def stub_services_def py_index_def
        doc_of_def solar_ranked_def)

lemma chat_down_generate:
  "generate_answer chat_down_env query [solar_ranked] w
     = (Inl (HTTPException 429 ''OpenAI rate limit exceeded. Please try again later.''),
        Suc w)"
  by (simp add: generate_answer_unfold chat_body_def chat_down_env_def)
     (simp add: stub_services_def)

lemma chat_down_run:
  "py_strip (q_query solar_req) \<noteq> [] \<and> time_time chat_down_env 0 = (0, 1)
   \<and> get_embedding chat_down_env (q_query solar_req) 1 = (Inr [1, 0], 2)
   \<and> time_time chat_down_env 2 = (2, 3) \<and> time_time chat_down_env 3 = (3, 4)
   \<and> index_query chat_down_env [1, 0] (q_top_k solar_req) 4
       = (Inr [match_of ''d1'' solar_text], 5)
   \<and> time_time chat_down_env 5 = (5, 6) \<and> extract_docs [match_of ''d1'' solar_text] \<noteq> []
   \<and> time_time chat_down_env 6 = (6, 7)
   \<and> rerank_documents chat_down_env (q_query solar_req)
         (mmr_diversify (extract_docs [match_of ''d1'' solar_text]) 2)
         (q_rerank_top_n solar_req) 7 = ([solar_ranked], 8)
   \<and> time_time chat_down_env 8 = (8, 9) \<and> time_time chat_down_env 9 = (9, 10)
   \<and> generate_answer chat_down_env (q_query solar_req) [solar_ranked] 10
       = (Inl (HTTPException 429 ''OpenAI rate limit exceeded. Please try again later.''),
          11)"
  apply (simp only: solar_extract solar_diversify)
  apply (simp add: solar_req_def chat_down_rerank chat_down_generate)
  apply (simp add: chat_down_env_def py_strip_def py_isspace_def)
  done

lemma embed_fails_run:
  "py_strip (q_query hello_req) \<noteq> [] \<and> time_time (embed_fails e) 0 = (0, 1)
   \<and> get_embedding (embed_fails e) (q_query hello_req) 1
       = (Inl (openai_except ''Embedding generation failed: '' e), 2)"
  by (simp add: hello_req_def py_strip_hello embed_fails_def demo_env_def get_embedding_def)

lemma generous_rerank:
  "rerank_documents generous_env query [doc_of ''d1'' ''solar'', doc_of ''d2'' ''wind''] 1 w
     = ([ranked_of ''d1'' ''solar'' (9 / 10), ranked_of ''d2'' ''wind'' (7 / 10)], Suc w)"
  by (simp add: rerank_documents_def generous_env_def py_index_def ranked_of_def)

lemma generous_tokens: "get_token_count generous_env text = length text"
  by (simp add: generous_env_def two_match_env_def get_token_count_def stub_services_def
        char_tokens_def)

lemma generous_chat:
  "chat_create generous_env model msgs temperature max_tokens w
     = (Inr (completion_of ''ok [1]'' 120 12), Suc w)"
  by (simp add: generous_env_def two_match_env_def stub_services_def)

lemma generous_generate:
  "generate_answer generous_env query
     [ranked_of ''d1'' ''solar'' (9 / 10), ranked_of ''d2'' ''wind'' (7 / 10)] w
     = (Inr \<lparr> ga_answer = ''ok [1]'', ga_tokens_input = 120, ga_tokens_output = 12,
              ga_tokens_total = 132,
              ga_sources = [source_of 1 (ranked_of ''d1'' ''solar'' (9 / 10)),
                            source_of 2 (ranked_of ''d2'' ''wind'' (7 / 10))] \<rparr>, Suc w)"
  by (simp add: generate_answer_def chat_body_def generous_tokens generous_chat
        ranked_of_def doc_of_def context_block_def MAX_CONTEXT_TOKENS_def completion_of_def
        Let_def numeral_2_eq_2)

lemma generous_run:
  "py_strip (q_query one_req) \<noteq> []"
  "time_time generous_env 0 = (0, 1)"
  "get_embedding generous_env (q_query one_req) 1 = (Inr [1, 0], 2)"
  "time_time generous_env 2 = (2, 3)"
  "time_time generous_env 3 = (3, 4)"
  "index_query generous_env [1, 0] (q_top_k one_req) 4
     = (Inr [match_of ''d1'' ''solar'', match_of ''d2'' ''wind''], 5)"
  "time_time generous_env 5 = (5, 6)"
  "extract_docs [match_of ''d1'' ''solar'', match_of ''d2'' ''wind''] \<noteq> []"
  "time_time generous_env 6 = (6, 7)"
  "rerank_documents generous_env (q_query one_req)
     (mmr_diversify (extract_docs [match_of ''d1'' ''solar'', match_of ''d2'' ''wind'']) 2)
     (q_rerank_top_n one_req) 7
     = ([ranked_of ''d1'' ''solar'' (9 / 10), ranked_of ''d2'' ''wind'' (7 / 10)], 8)"
  "time_time generous_env 8 = (8, 9)"
  "time_time generous_env 9 = (9, 10)"
  "generate_answer generous_env (q_query one_req)
     [ranked_of ''d1'' ''solar'' (9 / 10), ranked_of ''d2'' ''wind'' (7 / 10)] 10
     = (Inr \<lparr> ga_answer = ''ok [1]'', ga_tokens_input = 120, ga_tokens_output = 12,
              ga_tokens_total = 132,
              ga_sources = [source_of 1 (ranked_of ''d1'' ''solar'' (9 / 10)),
                            source_of 2 (ranked_of ''d2'' ''wind'' (7 / 10))] \<rparr>, 11)"
  "time_time generous_env 11 = (11, 12)"
  apply (simp_all only: negative_extract negative_diversify)
  apply (simp_all add: one_req_def generous_rerank generous_generate)
  apply (simp_all add: generous_env_def two_match_env_def get_embedding_def
           py_strip_def py_isspace_def)
  apply (simp_all add: stub_services_def)
  done

lemma embed_empty_call:
  "embeddings_create embed_empty_env model text w = (Inr [], Suc w)"
  by (simp add: embed_empty_env_def)

lemma chat_returns_call:
  "chat_create (chat_returns completion) model msgs temperature max_tokens w
     = (Inr completion, Suc w)"
  by (simp add: chat_returns_def stub_services_def)

lemma extract_docs_empty_iff:
  "extract_docs ms = [] \<longleftrightarrow> (\<forall>m\<in>set ms. map_of (m_metadata m) ''text'' = None)"
  by (induction ms) (auto split: option.splits)

lemma blank_query_rejected:
  "py_strip (q_query req) = []
   \<Longrightarrow> query_documents env req w = (Inl (HTTPException 400 ''Query cannot be empty''), w)"
  by (simp add: query_documents_def)

lemma textless_run:
  "py_strip (q_query hello_req) \<noteq> []"
  "time_time textless_env 0 = (0, 1)"
  "get_embedding textless_env (q_query hello_req) 1 = (Inr [1, 0], 2)"
  "time_time textless_env 2 = (2, 3)"
  "time_time textless_env 3 = (3, 4)"
  "index_query textless_env [1, 0] (q_top_k hello_req) 4 = (Inr [textless_match], 5)"
  "time_time textless_env 5 = (5, 6)"
  "extract_docs [textless_match] = []"
  by (simp_all add: textless_env_def hello_req_def py_strip_hello textless_match_def)

subsection \<open>What the timing map of a response records\<close>

text \<open>
  Every response records the rounded elapsed time of embedding and of retrieval under
  their keys. On the answered path the map has the five keys \<^verbatim>\<open>embedding\<close>,
  \<^verbatim>\<open>retrieval\<close>, \<^verbatim>\<open>reranking\<close>, \<^verbatim>\<open>generation\<close> and \<^verbatim>\<open>total\<close>, and
  \<^verbatim>\<open>total\<close> is the sum of the other four, rounded to three decimals.
\<close>

lemma answer_stages_timing:
  assumes "answer_stages env req [(''embedding'', e), (''retrieval'', r)] query_tokens docs w
             = (Inr resp, w')"
  shows "map_of (qr_timing resp) ''embedding'' = Some e
       \<and> map_of (qr_timing resp) ''retrieval'' = Some r"
proof -
  obtain t0 wa where a: "time_time env w = (t0, wa)" by (cases "time_time env w")
  obtain ranked wb where b:
    "rerank_documents env (q_query req) (mmr_diversify docs 2) (q_rerank_top_n req) wa
       = (ranked, wb)"
    by (cases "rerank_documents env (q_query req) (mmr_diversify docs 2)
                 (q_rerank_top_n req) wa")
  obtain t1 wc where c: "time_time env wb = (t1, wc)" by (cases "time_time env wb")
  obtain t2 wd where d: "time_time env wc = (t2, wd)" by (cases "time_time env wc")
  obtain g we where e: "generate_answer env (q_query req) ranked wd = (g, we)"
    by (cases "generate_answer env (q_query req) ranked wd")
  obtain t3 wf where f: "time_time env we = (t3, wf)" by (cases "time_time env we")
  show ?thesis
  proof (cases g)
    case (Inl err)
    with assms a b c d e show ?thesis by (simp add: answer_stages_def)
  next
    case (Inr result)
    with e have e': "generate_answer env (q_query req) ranked wd = (Inr result, we)" by simp
    from answer_run[OF a b c d e' f, of e r query_tokens] assms
    show ?thesis by (auto simp: answered_response_def Let_def)
  qed
qed

lemma every_response_timing:
  assumes "py_strip (q_query req) \<noteq> []"
    and "time_time env w = (t0, w1)"
    and "get_embedding env (q_query req) w1 = (Inr query_vec, w2)"
    and "time_time env w2 = (t1, w3)"
    and "time_time env w3 = (t2, w4)"
    and "index_query env query_vec (q_top_k req) w4 = (Inr matches, w5)"
    and "time_time env w5 = (t3, w6)"
    and "query_documents env req w = (Inr resp, w')"
  shows "map_of (qr_timing resp) ''embedding'' = Some (py_round env (t1 - t0) 3)
       \<and> map_of (qr_timing resp) ''retrieval'' = Some (py_round env (t3 - t2) 3)"
proof (cases "extract_docs matches = []")
  case True
  from no_match_run[OF assms(1-7) True] assms(8) show ?thesis
    by (auto simp: no_match_response_def)
next
  case False
  with assms(1,8) retrieve_run[OF assms(2-7)]
  have "answer_stages env req
          [(''embedding'', py_round env (t1 - t0) 3), (''retrieval'', py_round env (t3 - t2) 3)]
          (get_token_count env (q_query req)) (extract_docs matches) w6 = (Inr resp, w')"
    by (simp add: query_documents_def)
  then show ?thesis by (rule answer_stages_timing)
qed

lemma timing_of_every_response:
  assumes "py_strip (q_query req) \<noteq> []"
    and "time_time env w = (t0, w1)"
    and "get_embedding env (q_query req) w1 = (Inr query_vec, w2)"
    and "time_time env w2 = (t1, w3)"
    and "time_time env w3 = (t2, w4)"
    and "index_query env query_vec (q_top_k req) w4 = (Inr matches, w5)"
    and "time_time env w5 = (t3, w6)"
  shows "(\<forall>resp w'. query_documents env req w = (Inr resp, w')
            \<longrightarrow> map_of (qr_timing resp) ''embedding'' = Some (py_round env (t1 - t0) 3)
              \<and> map_of (qr_timing resp) ''retrieval'' = Some (py_round env (t3 - t2) 3))
       \<and> (extract_docs matches = []
            \<longrightarrow> (\<exists>resp. query_documents env req w = (Inr resp, w6)))
       \<and> (extract_docs matches \<noteq> []
            \<and> time_time env w6 = (t4, w7)
            \<and> rerank_documents env (q_query req) (mmr_diversify (extract_docs matches) 2)
                  (q_rerank_top_n req) w7 = (ranked, w8)
            \<and> time_time env w8 = (t5, w9)
            \<and> time_time env w9 = (t6, w10)
            \<and> generate_answer env (q_query req) ranked w10 = (Inr result, w11)
            \<and> time_time env w11 = (t7, w12)
            \<longrightarrow> (\<exists>resp. query_documents env req w = (Inr resp, w12)
                   \<and> qr_timing resp =
                       [(''embedding'', py_round env (t1 - t0) 3),
                        (''retrieval'', py_round env (t3 - t2) 3),
                        (''reranking'', py_round env (t5 - t4) 3),
                        (''generation'', py_round env (t7 - t6) 3),
                        (''total'',
                           py_round env (py_round env (t1 - t0) 3 + py_round env (t3 - t2) 3
                                         + py_round env (t5 - t4) 3
                                         + py_round env (t7 - t6) 3) 3)]))"
proof (intro conjI allI impI)
  fix resp w'
  assume "query_documents env req w = (Inr resp, w')"
  from every_response_timing[OF assms this]
  show "map_of (qr_timing resp) ''embedding'' = Some (py_round env (t1 - t0) 3)"
    and "map_of (qr_timing resp) ''retrieval'' = Some (py_round env (t3 - t2) 3)"
    by blast+
next
  assume "extract_docs matches = []"
  from no_match_run[OF assms this]
  show "\<exists>resp. query_documents env req w = (Inr resp, w6)" by blast
next
  assume h: "extract_docs matches \<noteq> []
            \<and> time_time env w6 = (t4, w7)
            \<and> rerank_documents env (q_query req) (mmr_diversify (extract_docs matches) 2)
                  (q_rerank_top_n req) w7 = (ranked, w8)
            \<and> time_time env w8 = (t5, w9)
            \<and> time_time env w9 = (t6, w10)
            \<and> generate_answer env (q_query req) ranked w10 = (Inr result, w11)
            \<and> time_time env w11 = (t7, w12)"
  then have h1: "extract_docs matches \<noteq> []" and h2: "time_time env w6 = (t4, w7)"
    and h3: "rerank_documents env (q_query req) (mmr_diversify (extract_docs matches) 2)
                  (q_rerank_top_n req) w7 = (ranked, w8)"
    and h4: "time_time env w8 = (t5, w9)" and h5: "time_time env w9 = (t6, w10)"
    and h6: "generate_answer env (q_query req) ranked w10 = (Inr result, w11)"
    and h7: "time_time env w11 = (t7, w12)"
    by simp_all
  from answered_run[OF assms h1 h2 h3 h4 h5 h6 h7]
  show "\<exists>resp. query_documents env req w = (Inr resp, w12)
                   \<and> qr_timing resp =
                       [(''embedding'', py_round env (t1 - t0) 3),
                        (''retrieval'', py_round env (t3 - t2) 3),
                        (''reranking'', py_round env (t5 - t4) 3),
                        (''generation'', py_round env (t7 - t6) 3),
                        (''total'',
                           py_round env (py_round env (t1 - t0) 3 + py_round env (t3 - t2) 3
                                         + py_round env (t5 - t4) 3
                                         + py_round env (t7 - t6) 3) 3)]"
    by (simp add: answered_response_def Let_def)
qed

section \<open>Properties\<close>

subsection \<open>Context budget\<close>

text \<open>
  Claim C1. Whenever \<^verbatim>\<open>generate_answer\<close> returns, its sources are those of the first
  \<open>k\<close> numbered candidates, and the token costs of the blocks \<^verbatim>\<open>"[i] " + text\<close> of
  these \<open>k\<close> candidates sum to at most the ceiling of 6000 tokens.
\<close>

theorem context_budget_respected:
  assumes "generate_answer env query docs w = (Inr res, w')"
  shows "ga_sources res = map (\<lambda>p. source_of (fst p) (snd p))
                            (take (length (ga_sources res)) (List.enumerate 1 docs))
       \<and> sum_list (map (block_cost env)
                     (take (length (ga_sources res)) (List.enumerate 1 docs))) \<le> 6000"
proof -
  obtain tot blocks sources where a: "assemble env 1 docs 0 [] [] = (tot, blocks, sources)"
    by (metis prod_cases3)
  from generate_answer_sources[OF assms] a have s: "ga_sources res = sources" by simp
  from assemble_start(3,4,5)[OF a] s show ?thesis
    by (simp add: MAX_CONTEXT_TOKENS_def)
qed

theorem context_budget_respected_witness:
  "generate_answer demo_env ''q'' demo_docs 0
     = (Inr \<lparr> ga_answer = ''ok'', ga_tokens_input = 10, ga_tokens_output = 5,
              ga_tokens_total = 15,
              ga_sources = [source_of 1 (doc_of ''d1'' ''abc'')] \<rparr>, 1)
   \<and> sum_list (map (block_cost demo_env) (take 1 (List.enumerate 1 demo_docs))) \<le> 6000"
proof -
  note h = demo_generate
  from context_budget_respected[OF h] h show ?thesis by simp
qed

text \<open>
  Claim C2. The assembly loop accepts a prefix of the ranked candidates: the sources and the
  blocks are those of the first \<open>k\<close> candidates, with the whole text of each; the citation
  numbers are \<open>1, \<dots>, k\<close>; every prefix of the accepted candidates fits the ceiling, and
  when a candidate is left the next one would exceed it. A single candidate that alone
  exceeds the ceiling gives no block and no source. \<^verbatim>\<open>generate_answer\<close> returns exactly
  these sources.
\<close>

theorem budgeter_accepts_a_prefix:
  assumes "assemble env 1 docs 0 [] [] = (tot, blocks, sources)"
  shows "length sources \<le> length docs
       \<and> sources = map (\<lambda>p. source_of (fst p) (snd p))
                      (take (length sources) (List.enumerate 1 docs))
       \<and> blocks = map (\<lambda>p. context_block (fst p) (snd p))
                     (take (length sources) (List.enumerate 1 docs))
       \<and> map s_id sources = [1..<Suc (length sources)]
       \<and> (\<forall>k<length sources. s_id (sources ! k) = k + 1)
       \<and> (\<forall>j\<le>length sources.
             sum_list (map (block_cost env) (take j (List.enumerate 1 docs)))
               \<le> MAX_CONTEXT_TOKENS)
       \<and> (length sources < length docs \<longrightarrow>
             MAX_CONTEXT_TOKENS
               < sum_list (map (block_cost env) (take (length sources) (List.enumerate 1 docs)))
                 + block_cost env (Suc (length sources), docs ! length sources))
       \<and> (\<forall>d. docs = [d] \<and> MAX_CONTEXT_TOKENS < block_cost env (1, d)
               \<longrightarrow> sources = [] \<and> blocks = [])
       \<and> (\<forall>query w res w'. generate_answer env query docs w = (Inr res, w')
               \<longrightarrow> ga_sources res = sources)"
proof -
  let ?k = "length sources"
  let ?num = "List.enumerate 1 docs"
  note st = assemble_start[OF assms]
  have "map s_id sources = map s_id (map (\<lambda>p. source_of (fst p) (snd p)) (take ?k ?num))"
    using st(3) by (rule arg_cong)
  also have "\<dots> = [1..<Suc ?k]" by (rule ids_of_prefix[OF st(1)])
  finally have ids: "map s_id sources = [1..<Suc ?k]" .
  have nth_ids: "\<forall>k<?k. s_id (sources ! k) = k + 1"
  proof (intro allI impI)
    fix k assume k: "k < ?k"
    then have "s_id (sources ! k) = map s_id sources ! k" by simp
    also have "\<dots> = [1..<Suc ?k] ! k" using ids by simp
    also have "\<dots> = k + 1" using k by (simp del: upt_Suc)
    finally show "s_id (sources ! k) = k + 1" .
  qed
  have pre: "\<forall>j\<le>?k. sum_list (map (block_cost env) (take j ?num)) \<le> MAX_CONTEXT_TOKENS"
  proof (intro allI impI)
    fix j assume "j \<le> ?k"
    then have "take j ?num = take j (take ?k ?num)" by (simp add: min_def)
    then have "sum_list (map (block_cost env) (take j ?num))
                 \<le> sum_list (map (block_cost env) (take ?k ?num))"
      using sum_list_take_le[of "block_cost env" j "take ?k ?num"] by simp
    with st(4,5) show "sum_list (map (block_cost env) (take j ?num)) \<le> MAX_CONTEXT_TOKENS"
      by simp
  qed
  have stop: "?k < length docs \<longrightarrow>
      MAX_CONTEXT_TOKENS < sum_list (map (block_cost env) (take ?k ?num))
                           + block_cost env (Suc ?k, docs ! ?k)"
    using st(4,6) by simp
  have single: "\<forall>d. docs = [d] \<and> MAX_CONTEXT_TOKENS < block_cost env (1, d)
                  \<longrightarrow> sources = [] \<and> blocks = []"
  proof (intro allI impI)
    fix d assume d: "docs = [d] \<and> MAX_CONTEXT_TOKENS < block_cost env (1, d)"
    with assms show "sources = [] \<and> blocks = []" by (simp add: Let_def)
  qed
  have ga: "\<forall>query w res w'. generate_answer env query docs w = (Inr res, w')
              \<longrightarrow> ga_sources res = sources"
    using generate_answer_sources assms by fastforce
  from st(1,2,3) ids nth_ids pre stop single ga show ?thesis by blast
qed

theorem budgeter_accepts_a_prefix_witness:
  "assemble demo_env 1 demo_docs 0 [] []
     = (7, [''[1] abc''], [source_of 1 (doc_of ''d1'' ''abc'')])
   \<and> map s_id [source_of 1 (doc_of ''d1'' ''abc'')] = [1]
   \<and> MAX_CONTEXT_TOKENS < 7 + block_cost demo_env (2, doc_of ''d1'' long_text)
   \<and> assemble demo_env 1 [doc_of ''d1'' long_text] 0 [] [] = (0, [], [])
   \<and> MAX_CONTEXT_TOKENS < block_cost demo_env (1, doc_of ''d1'' long_text)
   \<and> ga_sources \<lparr> ga_answer = ''ok'', ga_tokens_input = 10, ga_tokens_output = 5,
                   ga_tokens_total = 15,
                   ga_sources = [source_of 1 (doc_of ''d1'' ''abc'')] \<rparr>
       = [source_of 1 (doc_of ''d1'' ''abc'')]"
proof -
  let ?S = "[source_of 1 (doc_of ''d1'' ''abc'')]"
  note h = demo_assemble
  note t = budgeter_accepts_a_prefix[OF h]
  from t have c: "map s_id ?S = [1..<Suc (length ?S)]" by blast
  from t have d: "length ?S < length demo_docs \<longrightarrow>
      MAX_CONTEXT_TOKENS
        < sum_list (map (block_cost demo_env) (take (length ?S) (List.enumerate 1 demo_docs)))
          + block_cost demo_env (Suc (length ?S), demo_docs ! length ?S)" by blast
  from t have e: "\<forall>query w res w'. generate_answer demo_env query demo_docs w = (Inr res, w')
                    \<longrightarrow> ga_sources res = ?S" by blast
  from c have c': "map s_id ?S = [1]" by simp
  from d have d': "MAX_CONTEXT_TOKENS < 7 + block_cost demo_env (2, doc_of ''d1'' long_text)"
    by (simp add: demo_docs_def demo_cost_1 numeral_2_eq_2 del: block_cost_pair)
  from e demo_generate have e': "ga_sources \<lparr> ga_answer = ''ok'', ga_tokens_input = 10,
                   ga_tokens_output = 5, ga_tokens_total = 15,
                   ga_sources = [source_of 1 (doc_of ''d1'' ''abc'')] \<rparr> = ?S"
    by blast
  note h2 = demo_assemble_single
  have big: "MAX_CONTEXT_TOKENS < block_cost demo_env (1, doc_of ''d1'' long_text)"
    by (simp add: demo_env_def stub_services_def char_tokens_def
          get_token_count_def context_block_def doc_of_def MAX_CONTEXT_TOKENS_def)
  from h c' d' h2 big e' show ?thesis by blast
qed

subsection \<open>Diversity filter\<close>

text \<open>
  Claim C3. For every candidate list and every cap, \<^verbatim>\<open>mmr_diversify\<close> returns a
  subsequence of its input (same relative order), no longer than the input, in which every
  document that occurs has at most \<open>max_per_doc\<close> candidates; the empty list is mapped to
  the empty list. The function has no failing step: it is total on candidate lists.
\<close>

theorem mmr_diversify_cap:
  "subseq (mmr_diversify docs cap) docs
 \<and> length (mmr_diversify docs cap) \<le> length docs
 \<and> (\<forall>d\<in>set (mmr_diversify docs cap).
       int (count_id (document_id d) (mmr_diversify docs cap)) \<le> cap)
 \<and> (\<forall>i. int (count_id i (mmr_diversify docs cap)) \<le> max 0 cap)
 \<and> mmr_diversify [] cap = []"
proof -
  note s = mmr_diversify_spec[of docs cap]
  have len: "length (mmr_diversify docs cap) \<le> length docs"
    using s by (auto dest: list_emb_length)
  have per: "\<forall>d\<in>set (mmr_diversify docs cap).
       int (count_id (document_id d) (mmr_diversify docs cap)) \<le> cap"
  proof
    fix d assume "d \<in> set (mmr_diversify docs cap)"
    then have "0 < count_id (document_id d) (mmr_diversify docs cap)"
      by (rule count_id_member)
    moreover from s have "int (count_id (document_id d) (mmr_diversify docs cap)) \<le> max 0 cap"
      by blast
    ultimately show "int (count_id (document_id d) (mmr_diversify docs cap)) \<le> cap"
      by linarith
  qed
  have emp: "mmr_diversify [] cap = []" by (simp add: mmr_diversify_def)
  from s len per emp show ?thesis by blast
qed

theorem mmr_diversify_cap_witness:
  "doc_of ''d1'' ''a'' \<in> set (mmr_diversify same_doc_docs 2)
   \<and> int (count_id (document_id (doc_of ''d1'' ''a'')) (mmr_diversify same_doc_docs 2)) \<le> 2
   \<and> mmr_diversify same_doc_docs 2
       = [doc_of ''d1'' ''a'', doc_of ''d1'' ''b'', doc_of ''d2'' ''d'']"
proof -
  have m: "doc_of ''d1'' ''a'' \<in> set (mmr_diversify same_doc_docs 2)"
    by (simp add: demo_diversify)
  from mmr_diversify_cap[of same_doc_docs 2] m
  have "int (count_id (document_id (doc_of ''d1'' ''a'')) (mmr_diversify same_doc_docs 2)) \<le> 2"
    by blast
  with m demo_diversify show ?thesis by blast
qed

subsection \<open>Reranker\<close>

text \<open>
  Claim C4. When the call of the rerank service raises, \<^verbatim>\<open>rerank_documents\<close> returns
  \<^verbatim>\<open>docs[:top_n]\<close>, the candidates unchanged and in their order, instead of raising
  (for a non-negative \<open>top_n\<close> these are the first \<open>top_n\<close> candidates). For the empty
  list it returns the empty list and leaves the world as it was: the service is not called.
\<close>

theorem rerank_degrades:
  "(\<forall>e w'. docs \<noteq> []
        \<and> cohere_rerank env ''rerank-english-v3.0'' query (map d_text docs)
             (min top_n (int (length docs))) w = (Inl e, w')
        \<longrightarrow> rerank_documents env query docs top_n w = (py_slice_to docs top_n, w'))
 \<and> (0 \<le> top_n \<longrightarrow> py_slice_to docs top_n = take (nat top_n) docs)
 \<and> rerank_documents env query [] top_n w = ([], w)"
  by (simp add: rerank_documents_def py_slice_to_def)

theorem rerank_degrades_witness:
  "same_doc_docs \<noteq> []
   \<and> cohere_rerank rerank_down_env ''rerank-english-v3.0'' ''q'' (map d_text same_doc_docs)
         (min 2 (int (length same_doc_docs))) 0 = (Inl (OtherException ''cohere down''), 1)
   \<and> rerank_documents rerank_down_env ''q'' same_doc_docs 2 0
         = ([doc_of ''d1'' ''a'', doc_of ''d1'' ''b''], 1)"
proof -
  have a: "same_doc_docs \<noteq> []" by (simp add: same_doc_docs_def)
  have b: "cohere_rerank rerank_down_env ''rerank-english-v3.0'' ''q'' (map d_text same_doc_docs)
         (min 2 (int (length same_doc_docs))) 0 = (Inl (OtherException ''cohere down''), 1)"
    by (simp add: rerank_down_env_def stub_services_def)
  from rerank_degrades[of same_doc_docs rerank_down_env "''q''" 2 0] a b
  have "rerank_documents rerank_down_env ''q'' same_doc_docs 2 0
          = (py_slice_to same_doc_docs 2, 1)" by blast
  moreover have "py_slice_to same_doc_docs 2 = [doc_of ''d1'' ''a'', doc_of ''d1'' ''b'']"
    by (simp add: py_slice_to_def same_doc_docs_def)
  ultimately show ?thesis using a b by simp
qed

subsection \<open>Token counting\<close>

text \<open>
  Claim C10. \<^verbatim>\<open>get_token_count\<close> returns a count for every text and never an error:
  when \<^verbatim>\<open>tiktoken.get_encoding\<close> raises, or when \<^verbatim>\<open>encode\<close> raises, the count is
  \<^verbatim>\<open>len(text) // 4\<close>; otherwise it is the number of tokens the encoding gives.
\<close>

theorem get_token_count_total:
  "(\<forall>e. get_encoding env ''cl100k_base'' = Inl e
        \<longrightarrow> get_token_count env text = length text div 4)
 \<and> (\<forall>encode e. get_encoding env ''cl100k_base'' = Inr encode \<and> encode text = Inl e
        \<longrightarrow> get_token_count env text = length text div 4)
 \<and> (\<forall>encode tokens. get_encoding env ''cl100k_base'' = Inr encode \<and> encode text = Inr tokens
        \<longrightarrow> get_token_count env text = length tokens)"
  by (simp add: get_token_count_def)

theorem get_token_count_total_witness:
  "get_encoding offline_env ''cl100k_base'' = Inl (OtherException ''offline'')
   \<and> get_token_count offline_env ''abcdefghi'' = 2
   \<and> get_token_count strict_env ''abcdefghi'' = 2
   \<and> get_token_count demo_env ''abcdefghi'' = 9"
proof -
  have a: "get_encoding offline_env ''cl100k_base'' = Inl (OtherException ''offline'')"
    by (simp add: offline_env_def)
  have b: "get_encoding strict_env ''cl100k_base''
             = Inr (\<lambda>text. Inl (OtherException ''disallowed special token''))"
    by (simp add: strict_env_def)
  have c: "get_encoding demo_env ''cl100k_base'' = Inr (\<lambda>text. Inr (map of_char text))"
    by (simp add: demo_env_def stub_services_def char_tokens_def)
  from get_token_count_total[of offline_env "''abcdefghi''"] a
  have 1: "get_token_count offline_env ''abcdefghi'' = 2" by simp
  from get_token_count_total[of strict_env "''abcdefghi''"] b
  have 2: "get_token_count strict_env ''abcdefghi'' = 2" by simp
  from get_token_count_total[of demo_env "''abcdefghi''"] c
  have 3: "get_token_count demo_env ''abcdefghi'' = 9" by simp
  from a 1 2 3 show ?thesis by blast
qed

subsection \<open>Failures of the embedding and chat services\<close>

text \<open>
  Claim C6, as stated, fails: a failure of the call that is not an \<^verbatim>\<open>openai.APIError\<close>
  reaches the last handler and is raised with status 500, not as a service-unavailable
  error. This is so when the client raises another exception, and when the service answers
  with an empty \<^verbatim>\<open>data\<close> list, so that reading \<^verbatim>\<open>response.data[0]\<close> raises.
\<close>

theorem other_failure_is_500_counterexample:
  "fst (embeddings_create (embed_fails (OtherException ''unexpected keyword argument''))
          ''text-embedding-3-small'' ''q'' 0)
     = Inl (OtherException ''unexpected keyword argument'')
   \<and> fst (get_embedding (embed_fails (OtherException ''unexpected keyword argument'')) ''q'' 0)
       = Inl (HTTPException 500 ''Embedding generation failed: unexpected keyword argument'')
   \<and> fst (embeddings_create embed_empty_env ''text-embedding-3-small'' ''q'' 0) = Inr []
   \<and> fst (get_embedding embed_empty_env ''q'' 0)
       = Inl (HTTPException 500 ''Embedding generation failed: list index out of range'')"
  by (simp add: get_embedding_def embed_fails_def embed_empty_env_def)

text \<open>
  Claim C6, amended. \<^verbatim>\<open>get_embedding\<close> and \<^verbatim>\<open>generate_answer\<close> each call their service
  exactly once (the world they return is the world after that one call, so nothing is
  retried), and when the call raises they raise: status 429 for a rate-limit error, status
  503 with the error text for any other \<^verbatim>\<open>openai.APIError\<close>, and status 500 with the
  error text for any other exception. A response without embeddings, without choices or
  without usage is raised with status 500 as well. The endpoint raises what
  \<^verbatim>\<open>get_embedding\<close> and \<^verbatim>\<open>generate_answer\<close> raise, unchanged, and makes no further
  call.
\<close>

theorem upstream_errors_surface:
  "snd (get_embedding env text w)
     = snd (embeddings_create env ''text-embedding-3-small'' text w)
 \<and> (\<forall>m. fst (embeddings_create env ''text-embedding-3-small'' text w) = Inl (RateLimitError m)
        \<longrightarrow> fst (get_embedding env text w)
              = Inl (HTTPException 429 ''OpenAI rate limit exceeded. Please try again later.''))
 \<and> (\<forall>m. fst (embeddings_create env ''text-embedding-3-small'' text w) = Inl (APIError m)
        \<longrightarrow> fst (get_embedding env text w)
              = Inl (HTTPException 503 (''OpenAI API error: '' @ m)))
 \<and> (\<forall>m. fst (embeddings_create env ''text-embedding-3-small'' text w) = Inl (OtherException m)
        \<longrightarrow> fst (get_embedding env text w)
              = Inl (HTTPException 500 (''Embedding generation failed: '' @ m)))
 \<and> snd (generate_answer env query docs w)
     = snd (chat_create env ''gpt-4-turbo-preview''
              (chat_messages (context_of env docs) query) (2 / 10) 800 w)
 \<and> (\<forall>m. fst (chat_create env ''gpt-4-turbo-preview''
                (chat_messages (context_of env docs) query) (2 / 10) 800 w)
             = Inl (RateLimitError m)
        \<longrightarrow> fst (generate_answer env query docs w)
              = Inl (HTTPException 429 ''OpenAI rate limit exceeded. Please try again later.''))
 \<and> (\<forall>m. fst (chat_create env ''gpt-4-turbo-preview''
                (chat_messages (context_of env docs) query) (2 / 10) 800 w)
             = Inl (APIError m)
        \<longrightarrow> fst (generate_answer env query docs w)
              = Inl (HTTPException 503 (''OpenAI API error: '' @ m)))
 \<and> (\<forall>m. fst (chat_create env ''gpt-4-turbo-preview''
                (chat_messages (context_of env docs) query) (2 / 10) 800 w)
             = Inl (OtherException m)
        \<longrightarrow> fst (generate_answer env query docs w)
              = Inl (HTTPException 500 (''Answer generation failed: '' @ m)))
 \<and> (fst (embeddings_create env ''text-embedding-3-small'' text w) = Inr []
        \<longrightarrow> fst (get_embedding env text w)
              = Inl (HTTPException 500
                       ''Embedding generation failed: list index out of range''))
 \<and> (\<forall>completion.
        fst (chat_create env ''gpt-4-turbo-preview''
               (chat_messages (context_of env docs) query) (2 / 10) 800 w) = Inr completion
        \<and> choices completion = []
        \<longrightarrow> fst (generate_answer env query docs w)
              = Inl (HTTPException 500
                       ''Answer generation failed: list index out of range''))
 \<and> (\<forall>completion.
        fst (chat_create env ''gpt-4-turbo-preview''
               (chat_messages (context_of env docs) query) (2 / 10) 800 w) = Inr completion
        \<and> choices completion \<noteq> [] \<and> usage completion = None
        \<longrightarrow> fst (generate_answer env query docs w)
              = Inl (HTTPException 500 (''Answer generation failed: '' @ no_usage_message)))
 \<and> (py_strip (q_query req) \<noteq> [] \<and> time_time env w0 = (t0, w1)
      \<and> get_embedding env (q_query req) w1 = (Inl err, w2)
      \<longrightarrow> query_documents env req w0 = (Inl err, w2))
 \<and> (py_strip (q_query req) \<noteq> [] \<and> time_time env w0 = (t0, w1)
      \<and> get_embedding env (q_query req) w1 = (Inr query_vec, w2)
      \<and> time_time env w2 = (t1, w3) \<and> time_time env w3 = (t2, w4)
      \<and> index_query env query_vec (q_top_k req) w4 = (Inr matches, w5)
      \<and> time_time env w5 = (t3, w6) \<and> extract_docs matches \<noteq> []
      \<and> time_time env w6 = (t4, w7)
      \<and> rerank_documents env (q_query req) (mmr_diversify (extract_docs matches) 2)
            (q_rerank_top_n req) w7 = (ranked, w8)
      \<and> time_time env w8 = (t5, w9) \<and> time_time env w9 = (t6, w10)
      \<and> generate_answer env (q_query req) ranked w10 = (Inl err, w11)
      \<longrightarrow> query_documents env req w0 = (Inl err, w11))"
proof -
  let ?emb = "embeddings_create env ''text-embedding-3-small'' text w"
  let ?chat = "chat_create env ''gpt-4-turbo-preview''
                 (chat_messages (context_of env docs) query) (2 / 10) 800 w"
  let ?body = "chat_body env (context_of env docs) query
                 (snd (snd (assemble env 1 docs 0 [] []))) w"
  obtain r1 wa where emb: "?emb = (r1, wa)" by (cases ?emb)
  obtain r2 wb where chat: "?chat = (r2, wb)" by (cases ?chat)
  have e0: "snd (get_embedding env text w) = wa"
    using emb by (simp add: get_embedding_def split: sum.splits list.splits)
  have e1: "r1 = Inl e \<Longrightarrow>
      fst (get_embedding env text w) = Inl (openai_except ''Embedding generation failed: '' e)"
    for e
    using emb by (simp add: get_embedding_def)
  have "snd ?body = wb" using chat by (rule chat_body_world)
  then have g0: "snd (generate_answer env query docs w) = wb"
    by (auto simp: generate_answer_unfold split: prod.splits sum.splits)
  have g1: "r2 = Inl e \<Longrightarrow>
      fst (generate_answer env query docs w) = Inl (openai_except ''Answer generation failed: '' e)"
    for e
  proof -
    assume "r2 = Inl e"
    with chat have "?body = (Inl e, wb)" by (simp add: chat_body_raises)
    then show ?thesis by (simp add: generate_answer_unfold)
  qed
  have e0': "snd (get_embedding env text w) = snd ?emb" using e0 emb by simp
  have g0': "snd (generate_answer env query docs w) = snd ?chat" using g0 chat by simp
  have e1': "\<forall>e. fst ?emb = Inl e \<longrightarrow>
      fst (get_embedding env text w) = Inl (openai_except ''Embedding generation failed: '' e)"
    using e1 emb by simp
  have g1': "\<forall>e. fst ?chat = Inl e \<longrightarrow>
      fst (generate_answer env query docs w) = Inl (openai_except ''Answer generation failed: '' e)"
    using g1 chat by simp
  note ce = openai_except_cases[of "fst ?emb" "fst (get_embedding env text w)"
                "''Embedding generation failed: ''", OF e1']
  note cg = openai_except_cases[of "fst ?chat" "fst (generate_answer env query docs w)"
                "''Answer generation failed: ''", OF g1']
  have q1: "py_strip (q_query req) \<noteq> [] \<and> time_time env w0 = (t0, w1)
      \<and> get_embedding env (q_query req) w1 = (Inl err, w2)
      \<longrightarrow> query_documents env req w0 = (Inl err, w2)"
    using embedding_error_run[of req env w0 t0 w1 err w2] by simp
  have q2: "py_strip (q_query req) \<noteq> [] \<and> time_time env w0 = (t0, w1)
      \<and> get_embedding env (q_query req) w1 = (Inr query_vec, w2)
      \<and> time_time env w2 = (t1, w3) \<and> time_time env w3 = (t2, w4)
      \<and> index_query env query_vec (q_top_k req) w4 = (Inr matches, w5)
      \<and> time_time env w5 = (t3, w6) \<and> extract_docs matches \<noteq> []
      \<and> time_time env w6 = (t4, w7)
      \<and> rerank_documents env (q_query req) (mmr_diversify (extract_docs matches) 2)
            (q_rerank_top_n req) w7 = (ranked, w8)
      \<and> time_time env w8 = (t5, w9) \<and> time_time env w9 = (t6, w10)
      \<and> generate_answer env (q_query req) ranked w10 = (Inl err, w11)
      \<longrightarrow> query_documents env req w0 = (Inl err, w11)"
    using generation_error_run[of req env w0 t0 w1 query_vec w2 t1 w3 t2 w4 matches w5 t3 w6
            t4 w7 ranked w8 t5 w9 t6 w10 err w11]
    by simp
  have m1: "fst ?emb = Inr [] \<longrightarrow>
      fst (get_embedding env text w)
        = Inl (HTTPException 500 ''Embedding generation failed: list index out of range'')"
    using emb by (simp add: get_embedding_def)
  have m2: "\<forall>completion. fst ?chat = Inr completion \<and> choices completion = []
      \<longrightarrow> fst (generate_answer env query docs w)
            = Inl (HTTPException 500 ''Answer generation failed: list index out of range'')"
    using chat by (simp add: generate_answer_unfold chat_body_def)
  have m3: "\<forall>completion. fst ?chat = Inr completion
        \<and> choices completion \<noteq> [] \<and> usage completion = None
      \<longrightarrow> fst (generate_answer env query docs w)
            = Inl (HTTPException 500 (''Answer generation failed: '' @ no_usage_message))"
    using chat by (auto simp: generate_answer_unfold chat_body_def split: list.splits)
  note b1 = ce[THEN conjunct1] and b2 = ce[THEN conjunct2, THEN conjunct1]
    and b3 = ce[THEN conjunct2, THEN conjunct2]
  note d1 = cg[THEN conjunct1] and d2 = cg[THEN conjunct2, THEN conjunct1]
    and d3 = cg[THEN conjunct2, THEN conjunct2]
  show ?thesis
    by (intro conjI) (rule e0' b1 b2 b3 g0' d1 d2 d3 m1 m2 m3 q1 q2)+
qed

theorem upstream_errors_surface_witness:
  "fst (embeddings_create (embed_fails (RateLimitError ''slow down''))
          ''text-embedding-3-small'' ''q'' 0) = Inl (RateLimitError ''slow down'')
   \<and> fst (get_embedding (embed_fails (RateLimitError ''slow down'')) ''q'' 0)
       = Inl (HTTPException 429 ''OpenAI rate limit exceeded. Please try again later.'')
   \<and> snd (get_embedding (embed_fails (RateLimitError ''slow down'')) ''q'' 0) = 1
   \<and> fst (get_embedding (embed_fails (APIError ''bad gateway'')) ''q'' 0)
       = Inl (HTTPException 503 ''OpenAI API error: bad gateway'')
   \<and> fst (get_embedding (embed_fails (OtherException ''connection reset'')) ''q'' 0)
       = Inl (HTTPException 500 ''Embedding generation failed: connection reset'')
   \<and> fst (generate_answer (chat_fails (RateLimitError ''slow down'')) ''q'' demo_docs 0)
       = Inl (HTTPException 429 ''OpenAI rate limit exceeded. Please try again later.'')
   \<and> snd (generate_answer (chat_fails (RateLimitError ''slow down'')) ''q'' demo_docs 0) = 1
   \<and> fst (generate_answer (chat_fails (APIError ''bad gateway'')) ''q'' demo_docs 0)
       = Inl (HTTPException 503 ''OpenAI API error: bad gateway'')
   \<and> fst (generate_answer (chat_fails (OtherException ''connection reset'')) ''q'' demo_docs 0)
       = Inl (HTTPException 500 ''Answer generation failed: connection reset'')
   \<and> fst (get_embedding embed_empty_env ''q'' 0)
       = Inl (HTTPException 500 ''Embedding generation failed: list index out of range'')
   \<and> fst (generate_answer (chat_returns \<lparr>choices = [], usage = None\<rparr>) ''q'' demo_docs 0)
       = Inl (HTTPException 500 ''Answer generation failed: list index out of range'')
   \<and> fst (generate_answer (chat_returns \<lparr>choices = [''ok''], usage = None\<rparr>) ''q''
            demo_docs 0)
       = Inl (HTTPException 500 (''Answer generation failed: '' @ no_usage_message))
   \<and> query_documents (embed_fails (RateLimitError ''slow down'')) hello_req 0
       = (Inl (HTTPException 429 ''OpenAI rate limit exceeded. Please try again later.''), 2)
   \<and> query_documents chat_down_env solar_req 0
       = (Inl (HTTPException 429 ''OpenAI rate limit exceeded. Please try again later.''), 11)"
proof -
  note t1 = upstream_errors_surface[of "embed_fails (RateLimitError ''slow down'')" "''q''" 0
              "''q''" demo_docs]
  note t2 = upstream_errors_surface[of "embed_fails (APIError ''bad gateway'')" "''q''" 0
              "''q''" demo_docs]
  note t3 = upstream_errors_surface[of "embed_fails (OtherException ''connection reset'')"
              "''q''" 0 "''q''" demo_docs]
  note t4 = upstream_errors_surface[of "chat_fails (RateLimitError ''slow down'')" "''q''" 0
              "''q''" demo_docs]
  note t5 = upstream_errors_surface[of "chat_fails (APIError ''bad gateway'')" "''q''" 0
              "''q''" demo_docs]
  note t6 = upstream_errors_surface[of "chat_fails (OtherException ''connection reset'')"
              "''q''" 0 "''q''" demo_docs]
  have a: "fst (embeddings_create (embed_fails (RateLimitError ''slow down''))
          ''text-embedding-3-small'' ''q'' 0) = Inl (RateLimitError ''slow down'')"
    by (simp add: embed_fails_call)
  from t1 have b: "fst (get_embedding (embed_fails (RateLimitError ''slow down'')) ''q'' 0)
       = Inl (HTTPException 429 ''OpenAI rate limit exceeded. Please try again later.'')"
    and c: "snd (get_embedding (embed_fails (RateLimitError ''slow down'')) ''q'' 0) = 1"
    by (simp_all add: embed_fails_call)
  from t2 have d: "fst (get_embedding (embed_fails (APIError ''bad gateway'')) ''q'' 0)
       = Inl (HTTPException 503 ''OpenAI API error: bad gateway'')"
    by (simp add: embed_fails_call)
  from t3 have e: "fst (get_embedding (embed_fails (OtherException ''connection reset'')) ''q'' 0)
       = Inl (HTTPException 500 ''Embedding generation failed: connection reset'')"
    by (simp add: embed_fails_call)
  from t4 have f: "fst (generate_answer (chat_fails (RateLimitError ''slow down'')) ''q'' demo_docs 0)
       = Inl (HTTPException 429 ''OpenAI rate limit exceeded. Please try again later.'')"
    and g: "snd (generate_answer (chat_fails (RateLimitError ''slow down'')) ''q'' demo_docs 0) = 1"
    by (simp_all add: chat_fails_call)
  from t5 have h: "fst (generate_answer (chat_fails (APIError ''bad gateway'')) ''q'' demo_docs 0)
       = Inl (HTTPException 503 ''OpenAI API error: bad gateway'')"
    by (simp add: chat_fails_call)
  from t6 have i: "fst (generate_answer (chat_fails (OtherException ''connection reset'')) ''q'' demo_docs 0)
       = Inl (HTTPException 500 ''Answer generation failed: connection reset'')"
    by (simp add: chat_fails_call)
  note t7 = upstream_errors_surface[where env = "embed_fails (RateLimitError ''slow down'')"
              and req = hello_req and ?w0.0 = 0 and ?t0.0 = 0 and ?w1.0 = 1 and ?w2.0 = 2
              and err = "HTTPException 429 ''OpenAI rate limit exceeded. Please try again later.''"]
  note t8 = upstream_errors_surface[where env = chat_down_env
              and req = solar_req and ?w0.0 = 0 and ?t0.0 = 0 and ?w1.0 = 1 and ?w2.0 = 2
              and query_vec = "[1, 0]" and ?t1.0 = 2 and ?w3.0 = 3 and ?t2.0 = 3 and ?w4.0 = 4
              and matches = "[match_of ''d1'' solar_text]" and ?w5.0 = 5 and ?t3.0 = 5
              and ?w6.0 = 6 and ?t4.0 = 6 and ?w7.0 = 7 and ranked = "[solar_ranked]"
              and ?w8.0 = 8 and ?t5.0 = 8 and ?w9.0 = 9 and ?t6.0 = 9 and ?w10.0 = 10
              and ?w11.0 = 11
              and err = "HTTPException 429 ''OpenAI rate limit exceeded. Please try again later.''"]
  from t7 embed_fails_run[of "RateLimitError ''slow down''"]
  have j: "query_documents (embed_fails (RateLimitError ''slow down'')) hello_req 0
       = (Inl (HTTPException 429 ''OpenAI rate limit exceeded. Please try again later.''), 2)"
    by simp
  from t8 chat_down_run
  have k: "query_documents chat_down_env solar_req 0
       = (Inl (HTTPException 429 ''OpenAI rate limit exceeded. Please try again later.''), 11)"
    by blast
  note t9 = upstream_errors_surface[of embed_empty_env "''q''" 0 "''q''" demo_docs]
  note t10 = upstream_errors_surface[of "chat_returns \<lparr>choices = [], usage = None\<rparr>"
               "''q''" 0 "''q''" demo_docs]
  note t11 = upstream_errors_surface[of "chat_returns \<lparr>choices = [''ok''], usage = None\<rparr>"
               "''q''" 0 "''q''" demo_docs]
  from t9 have l: "fst (get_embedding embed_empty_env ''q'' 0)
       = Inl (HTTPException 500 ''Embedding generation failed: list index out of range'')"
    by (simp add: embed_empty_call)
  from t10 have m: "fst (generate_answer (chat_returns \<lparr>choices = [], usage = None\<rparr>)
                          ''q'' demo_docs 0)
       = Inl (HTTPException 500 ''Answer generation failed: list index out of range'')"
    by (simp add: chat_returns_call)
  from t11 have n: "fst (generate_answer (chat_returns \<lparr>choices = [''ok''], usage = None\<rparr>)
                          ''q'' demo_docs 0)
       = Inl (HTTPException 500 (''Answer generation failed: '' @ no_usage_message))"
    by (simp add: chat_returns_call)
  from a b c d e f g h i l m n j k show ?thesis by (intro conjI)
qed

subsection \<open>The no-match short circuit\<close>

text \<open>
  Claim C5, as stated for every query text, fails: for a query of blank characters the
  endpoint raises status 400 before any call is made, although retrieval on the empty index
  gives no candidate for it.
\<close>

theorem blank_query_counterexample:
  "retrieve_stage demo_env blank_req 0
     = (Inr ([(''embedding'', 2), (''retrieval'', 2)], 3, []), 6)
   \<and> query_documents demo_env blank_req 0
     = (Inl (HTTPException 400 ''Query cannot be empty''), 0)"
  by (simp add: retrieve_stage_def query_documents_def demo_env_def blank_req_def
        py_strip_blank)

text \<open>
  Claim C5, amended. For every query text that is not blank: when the embedding call and the
  index query succeed and no match carries a text, the endpoint returns the canned no-match
  answer with no sources, the two timings recorded so far, the token count of the query as
  the only tokens, and a cost made of the embedding cost alone (\<^verbatim>\<open>llm_usd\<close> and
  \<^verbatim>\<open>rerank_usd\<close> are 0). The world it returns is the one after the clock reading that
  closes retrieval, and the outcome is the same whatever the rerank and chat services are:
  no later stage runs. Every blank query is rejected with status 400 and the world as it
  was, so before any call is made.
\<close>

theorem no_match_short_circuit:
  assumes "py_strip (q_query req) \<noteq> []"
    and "time_time env w = (t0, w1)"
    and "get_embedding env (q_query req) w1 = (Inr query_vec, w2)"
    and "time_time env w2 = (t1, w3)"
    and "time_time env w3 = (t2, w4)"
    and "index_query env query_vec (q_top_k req) w4 = (Inr matches, w5)"
    and "time_time env w5 = (t3, w6)"
    and "extract_docs matches = []"
  shows "query_documents env req w =
           (Inr \<lparr> qr_answer = no_match_answer,
                  qr_sources = [],
                  qr_timing = [(''embedding'', py_round env (t1 - t0) 3),
                               (''retrieval'', py_round env (t3 - t2) 3)],
                  qr_token_estimate =
                    \<lparr> embedding_tokens = int (get_token_count env (q_query req)),
                      llm_input_tokens = 0,
                      llm_output_tokens = 0,
                      total_tokens = int (get_token_count env (q_query req)),
                      costs =
                        [(''embedding_usd'',
                            py_round env ((real (get_token_count env (q_query req)) / 1000)
                                          * PRICING_embedding) 6),
                         (''llm_usd'', 0),
                         (''rerank_usd'', 0),
                         (''total_usd'',
                            py_round env ((real (get_token_count env (q_query req)) / 1000)
                                          * PRICING_embedding) 6)] \<rparr> \<rparr>, w6)
       \<and> query_documents (env\<lparr>cohere_rerank := rerank', chat_create := chat'\<rparr>) req w
           = query_documents env req w
       \<and> (py_strip (q_query blank) = []
            \<longrightarrow> query_documents env blank wb
                  = (Inl (HTTPException 400 ''Query cannot be empty''), wb))"
proof -
  let ?env = "env\<lparr>cohere_rerank := rerank', chat_create := chat'\<rparr>"
  note run = no_match_run[OF assms]
  have "query_documents ?env req w =
           (Inr (no_match_response ?env
                   [(''embedding'', py_round ?env (t1 - t0) 3),
                    (''retrieval'', py_round ?env (t3 - t2) 3)]
                   (get_token_count ?env (q_query req))), w6)"
    by (rule no_match_run[of req ?env w t0 w1 query_vec w2 t1 w3 t2 w4 matches w5 t3 w6])
       (simp_all add: services_independent assms)
  then have same: "query_documents ?env req w = query_documents env req w"
    using run by (simp add: services_independent no_match_response_def)
  have blank: "py_strip (q_query blank) = []
            \<longrightarrow> query_documents env blank wb
                  = (Inl (HTTPException 400 ''Query cannot be empty''), wb)"
    by (simp add: blank_query_rejected)
  from run same blank show ?thesis by (simp add: no_match_response_def)
qed

theorem no_match_short_circuit_witness:
  "query_documents demo_env hello_req 0 =
     (Inr \<lparr> qr_answer = no_match_answer, qr_sources = [],
            qr_timing = [(''embedding'', 2), (''retrieval'', 2)],
            qr_token_estimate =
              \<lparr> embedding_tokens = 5, llm_input_tokens = 0, llm_output_tokens = 0,
                total_tokens = 5,
                costs = [(''embedding_usd'', 0), (''llm_usd'', 0), (''rerank_usd'', 0),
                         (''total_usd'', 0)] \<rparr> \<rparr>, 6)
   \<and> query_documents
         (demo_env\<lparr>cohere_rerank := cohere_rerank rerank_down_env,
                    chat_create := chat_create (chat_fails (APIError ''bad gateway''))\<rparr>)
         hello_req 0
       = query_documents demo_env hello_req 0
   \<and> py_strip (q_query blank_req) = []
   \<and> query_documents demo_env blank_req 7
       = (Inl (HTTPException 400 ''Query cannot be empty''), 7)
   \<and> index_query textless_env [1, 0] (q_top_k hello_req) 4 = (Inr [textless_match], 5)
   \<and> qr_answer (projr (fst (query_documents textless_env hello_req 0))) = no_match_answer
   \<and> qr_sources (projr (fst (query_documents textless_env hello_req 0))) = []
   \<and> snd (query_documents textless_env hello_req 0) = 6"
proof -
  have r3: "py_round demo_env (2 - 0) 3 = 2" "py_round demo_env (5 - 3) 3 = 2"
    by (simp_all add: demo_env_def)
  have tok: "get_token_count demo_env (q_query hello_req) = 5"
    by (simp add: demo_env_def hello_req_def)
  have r6: "py_round demo_env ((real 5 / 1000) * PRICING_embedding) 6 = 0"
    by (simp add: demo_env_def PRICING_embedding_def round_def)
  have bl: "py_strip (q_query blank_req) = []"
    by (simp add: blank_req_def py_strip_blank)
  note t1 = no_match_short_circuit[OF hello_run,
         where rerank' = "cohere_rerank rerank_down_env"
           and chat' = "chat_create (chat_fails (APIError ''bad gateway''))"
           and blank = blank_req and wb = 7]
  from t1 have a: "query_documents demo_env hello_req 0 =
     (Inr \<lparr> qr_answer = no_match_answer, qr_sources = [],
            qr_timing = [(''embedding'', 2), (''retrieval'', 2)],
            qr_token_estimate =
              \<lparr> embedding_tokens = 5, llm_input_tokens = 0, llm_output_tokens = 0,
                total_tokens = 5,
                costs = [(''embedding_usd'', 0), (''llm_usd'', 0), (''rerank_usd'', 0),
                         (''total_usd'', 0)] \<rparr> \<rparr>, 6)"
    by (simp only: r3 tok r6) simp
  from t1 have b: "query_documents
         (demo_env\<lparr>cohere_rerank := cohere_rerank rerank_down_env,
                    chat_create := chat_create (chat_fails (APIError ''bad gateway''))\<rparr>)
         hello_req 0
       = query_documents demo_env hello_req 0"
    by (rule conjunct1[OF conjunct2])
  from t1 bl have c: "query_documents demo_env blank_req 7
       = (Inl (HTTPException 400 ''Query cannot be empty''), 7)"
    by (simp only: simp_thms)
  note t2 = no_match_short_circuit[OF textless_run,
         where rerank' = "cohere_rerank rerank_down_env"
           and chat' = "chat_create (chat_fails (APIError ''bad gateway''))"
           and blank = blank_req and wb = 7]
  from t2 have d: "qr_answer (projr (fst (query_documents textless_env hello_req 0)))
                     = no_match_answer"
    and e: "qr_sources (projr (fst (query_documents textless_env hello_req 0))) = []"
    and f: "snd (query_documents textless_env hello_req 0) = 6"
    by simp_all
  from a b bl c textless_run(6) d e f show ?thesis by (intro conjI)
qed

subsection \<open>Timing\<close>

text \<open>
  Claim C7. Every response of the endpoint is to carry, in its timing map, the elapsed time
  of each stage that ran under the key of that stage, and a \<^verbatim>\<open>total\<close> equal to the sum
  of the recorded stage times. The answered path does so: \<^verbatim>\<open>total\<close> is set after
  generation. The no-match branch returns before that assignment, so its response has the
  timings of embedding and retrieval and no \<^verbatim>\<open>total\<close>. Here the endpoint is run on a
  query that is not blank against an empty index, and, for comparison, on an answered
  query.
\<close>

theorem no_match_timing_lacks_total:
  "query_documents demo_env hello_req 0
     = (Inr (no_match_response demo_env [(''embedding'', 2), (''retrieval'', 2)] 5), 6)
   \<and> map_of (qr_timing (no_match_response demo_env
                              [(''embedding'', 2), (''retrieval'', 2)] 5)) ''embedding''
       = Some 2
   \<and> map_of (qr_timing (no_match_response demo_env
                              [(''embedding'', 2), (''retrieval'', 2)] 5)) ''retrieval''
       = Some 2
   \<and> map_of (qr_timing (no_match_response demo_env
                              [(''embedding'', 2), (''retrieval'', 2)] 5)) ''total''
       = None
   \<and> \<not> isl (fst (query_documents solar_env solar_req 0))
   \<and> map_of (qr_timing (projr (fst (query_documents solar_env solar_req 0)))) ''total''
       = Some 8"
proof -
  have rd: "py_round demo_env (2 - 0) 3 = 2" "py_round demo_env (5 - 3) 3 = 2"
    by (simp_all add: demo_env_def)
  have tok: "get_token_count demo_env (q_query hello_req) = 5"
    by (simp add: demo_env_def hello_req_def)
  have rs: "py_round solar_env (2 - 0) 3 = 2" "py_round solar_env (5 - 3) 3 = 2"
    "py_round solar_env (8 - 6) 3 = 2" "py_round solar_env (11 - 9) 3 = 2"
    "py_round solar_env (2 + 2 + 2 + 2) 3 = 8"
    by (simp_all add: solar_env_def)
  note run1 = no_match_run[OF hello_run, unfolded rd tok]
  have tm1: "map_of (qr_timing (no_match_response demo_env
                                   [(''embedding'', 2), (''retrieval'', 2)] 5)) ''embedding''
               = Some 2"
    "map_of (qr_timing (no_match_response demo_env
                          [(''embedding'', 2), (''retrieval'', 2)] 5)) ''retrieval''
       = Some 2"
    "map_of (qr_timing (no_match_response demo_env
                          [(''embedding'', 2), (''retrieval'', 2)] 5)) ''total''
       = None"
    by (simp_all add: no_match_response_def)
  note run2 = answered_run[OF solar_run, unfolded rs]
  from run2 have a: "\<not> isl (fst (query_documents solar_env solar_req 0))"
    and b: "map_of (qr_timing (projr (fst (query_documents solar_env solar_req 0)))) ''total''
              = Some 8"
    by (simp_all add: answered_response_def Let_def)
  from run1 tm1 a b show ?thesis by (intro conjI)
qed

subsection \<open>Token accounting\<close>

text \<open>
  Claim C8. For every answered query, \<^verbatim>\<open>token_estimate.total_tokens\<close> is the token
  count of the query plus the \<^verbatim>\<open>total_tokens\<close> the chat service reported in its usage;
  \<^verbatim>\<open>embedding_tokens\<close> is the token count of the query, and \<^verbatim>\<open>llm_input_tokens\<close> and
  \<^verbatim>\<open>llm_output_tokens\<close> are the reported prompt and completion tokens.
\<close>

theorem total_tokens_additive:
  assumes "py_strip (q_query req) \<noteq> []"
    and "time_time env w = (t0, w1)"
    and "get_embedding env (q_query req) w1 = (Inr query_vec, w2)"
    and "time_time env w2 = (t1, w3)"
    and "time_time env w3 = (t2, w4)"
    and "index_query env query_vec (q_top_k req) w4 = (Inr matches, w5)"
    and "time_time env w5 = (t3, w6)"
    and "extract_docs matches \<noteq> []"
    and "time_time env w6 = (t4, w7)"
    and "rerank_documents env (q_query req) (mmr_diversify (extract_docs matches) 2)
           (q_rerank_top_n req) w7 = (ranked, w8)"
    and "time_time env w8 = (t5, w9)"
    and "time_time env w9 = (t6, w10)"
    and "generate_answer env (q_query req) ranked w10 = (Inr result, w11)"
    and "time_time env w11 = (t7, w12)"
  shows "\<exists>resp completion u.
           query_documents env req w = (Inr resp, w12)
         \<and> chat_create env ''gpt-4-turbo-preview''
               (chat_messages (context_of env ranked) (q_query req)) (2 / 10) 800 w10
             = (Inr completion, w11)
         \<and> usage completion = Some u
         \<and> embedding_tokens (qr_token_estimate resp) = int (get_token_count env (q_query req))
         \<and> llm_input_tokens (qr_token_estimate resp) = prompt_tokens u
         \<and> llm_output_tokens (qr_token_estimate resp) = completion_tokens u
         \<and> total_tokens (qr_token_estimate resp)
             = int (get_token_count env (q_query req)) + usage_total_tokens u"
proof -
  from generate_answer_usage[OF assms(13)] obtain completion u where u:
    "chat_create env ''gpt-4-turbo-preview''
       (chat_messages (context_of env ranked) (q_query req)) (2 / 10) 800 w10
       = (Inr completion, w11)"
    "usage completion = Some u"
    "ga_tokens_input result = prompt_tokens u"
    "ga_tokens_output result = completion_tokens u"
    "ga_tokens_total result = usage_total_tokens u"
    by blast
  from answered_run[OF assms] u show ?thesis
    by (simp add: answered_response_def Let_def)
qed

theorem total_tokens_additive_witness:
  "embedding_tokens (qr_token_estimate (projr (fst (query_documents solar_env solar_req 0)))) = 31
   \<and> llm_input_tokens (qr_token_estimate (projr (fst (query_documents solar_env solar_req 0))))
       = 120
   \<and> llm_output_tokens (qr_token_estimate (projr (fst (query_documents solar_env solar_req 0))))
       = 12
   \<and> total_tokens (qr_token_estimate (projr (fst (query_documents solar_env solar_req 0))))
       = 31 + 132"
proof -
  have tok: "get_token_count solar_env (q_query solar_req) = 31"
    by (simp add: solar_env_def solar_req_def)
  have chat: "chat_create solar_env model msgs temp n 10
                = (Inr (completion_of ''Solar panels average 15-22% efficiency [1].'' 120 12), 11)"
    for model msgs temp n
    by (simp add: solar_env_def stub_services_def)
  from total_tokens_additive[OF solar_run] obtain resp completion u where
    "query_documents solar_env solar_req 0 = (Inr resp, 12)"
    "chat_create solar_env ''gpt-4-turbo-preview''
       (chat_messages (context_of solar_env [solar_ranked]) (q_query solar_req)) (2 / 10) 800 10
       = (Inr completion, 11)"
    "usage completion = Some u"
    "embedding_tokens (qr_token_estimate resp) = int (get_token_count solar_env (q_query solar_req))"
    "llm_input_tokens (qr_token_estimate resp) = prompt_tokens u"
    "llm_output_tokens (qr_token_estimate resp) = completion_tokens u"
    "total_tokens (qr_token_estimate resp)
       = int (get_token_count solar_env (q_query solar_req)) + usage_total_tokens u"
    by blast
  then show ?thesis by (auto simp: tok chat completion_of_def)
qed

subsection \<open>Number of sources\<close>

text \<open>
  Claim C9, as stated, fails in two ways. For a negative \<^verbatim>\<open>rerank_top_n\<close> the rerank
  call is rejected, the degraded path returns \<^verbatim>\<open>docs[:-1]\<close>, all candidates but the last,
  and the response has one source although \<^verbatim>\<open>rerank_top_n\<close> is \<open>-1\<close>. On the success
  path the candidates returned are as many as the results of the service: a service that
  answers a request for one result with two gives a response with two sources.
\<close>

theorem top_n_exceeded_counterexample:
  "q_rerank_top_n negative_req = - 1
   \<and> \<not> isl (fst (query_documents two_match_env negative_req 0))
   \<and> qr_sources (projr (fst (query_documents two_match_env negative_req 0)))
       = [source_of 1 (doc_of ''d1'' ''solar'')]
   \<and> q_rerank_top_n negative_req
       < int (length (qr_sources (projr (fst (query_documents two_match_env negative_req 0)))))
   \<and> q_rerank_top_n one_req = 1
   \<and> \<not> isl (fst (query_documents generous_env one_req 0))
   \<and> q_rerank_top_n one_req
       < int (length (qr_sources (projr (fst (query_documents generous_env one_req 0)))))"
proof -
  have n: "q_rerank_top_n negative_req = - 1" by (simp add: negative_req_def)
  from answered_run[OF negative_run]
  have a: "\<not> isl (fst (query_documents two_match_env negative_req 0))"
    and b: "qr_sources (projr (fst (query_documents two_match_env negative_req 0)))
           = [source_of 1 (doc_of ''d1'' ''solar'')]"
    by (simp_all add: answered_response_def Let_def)
  have m: "q_rerank_top_n one_req = 1" by (simp add: one_req_def)
  from answered_run[OF generous_run]
  have c: "\<not> isl (fst (query_documents generous_env one_req 0))"
    and d: "length (qr_sources (projr (fst (query_documents generous_env one_req 0)))) = 2"
    by (simp_all add: answered_response_def Let_def)
  from n a b m c d show ?thesis by simp
qed

text \<open>
  Claim C9, amended. When \<^verbatim>\<open>rerank_top_n\<close> is not negative and the rerank service
  returns at most the \<open>top_n\<close> results it is asked for, every response of the endpoint has
  at most \<^verbatim>\<open>rerank_top_n\<close> sources.
\<close>

theorem sources_bounded_by_top_n:
  assumes "query_documents env req w = (Inr resp, w')"
    and "0 \<le> q_rerank_top_n req"
    and "\<forall>query ds n w r w'.
           cohere_rerank env ''rerank-english-v3.0'' query ds n w = (Inr r, w')
             \<longrightarrow> int (length r) \<le> n"
  shows "int (length (qr_sources resp)) \<le> q_rerank_top_n req"
proof -
  from query_documents_sources[OF assms(1)] show ?thesis
  proof
    assume "qr_sources resp = []"
    with assms(2) show ?thesis by simp
  next
    assume "\<exists>docs w1 w2 w3 result.
             generate_answer env (q_query req)
               (fst (rerank_documents env (q_query req) docs (q_rerank_top_n req) w1)) w2
               = (Inr result, w3)
           \<and> qr_sources resp = ga_sources result"
    then obtain docs w1 w2 w3 result where g:
      "generate_answer env (q_query req)
         (fst (rerank_documents env (q_query req) docs (q_rerank_top_n req) w1)) w2
         = (Inr result, w3)"
      "qr_sources resp = ga_sources result"
      by blast
    from generate_answer_length[OF g(1)] g(2)
    have "length (qr_sources resp)
            \<le> length (fst (rerank_documents env (q_query req) docs (q_rerank_top_n req) w1))"
      by simp
    with rerank_documents_length[OF assms(2,3), of "q_query req" docs w1]
    show ?thesis by linarith
  qed
qed

theorem sources_bounded_by_top_n_witness:
  "\<not> isl (fst (query_documents solar_env solar_req 0))
   \<and> 0 \<le> q_rerank_top_n solar_req
   \<and> int (length (qr_sources (projr (fst (query_documents solar_env solar_req 0)))))
       \<le> q_rerank_top_n solar_req"
proof -
  from answered_run[OF solar_run] obtain resp where
    run: "query_documents solar_env solar_req 0 = (Inr resp, 12)" by blast
  have nn: "0 \<le> q_rerank_top_n solar_req" by (simp add: solar_req_def)
  have contract: "\<forall>query ds n w r w'.
     cohere_rerank solar_env ''rerank-english-v3.0'' query ds n w = (Inr r, w')
       \<longrightarrow> int (length r) \<le> n"
    unfolding solar_env_def by (rule stub_rerank_contract)
  from sources_bounded_by_top_n[OF run nn contract] run nn show ?thesis by simp
qed

end
